theory Spec2Isabelle
  imports Complex_Main "HOL-Library.List_Lexorder" "HOL-Library.Sublist" "HOL-Library.Multiset"
begin

section \<open>Data model\<close>

text \<open>
  The scoring engine of \<^verbatim>\<open>process_data.py\<close> works on a pandas data frame with one row
  per post.  A row is modelled by the record \<open>post\<close>: the raw columns written by
  \<^verbatim>\<open>fetch_raw_posts\<close> are plain fields, and every column that a calculator stage assigns
  is an optional field, \<open>None\<close> while the column does not exist yet.

  Python strings are sequences of code points, so a string is a list of code points
  (\<open>len\<close> and \<open>str.len()\<close> count code points, and the posts are mostly Chinese text).
  A timestamp is the number of nanoseconds since the epoch in UTC, as pandas stores it.
  The integer columns are 64-bit: a counter lies between \<open>- 2 ^ 63\<close> and \<open>2 ^ 63 - 1\<close>,
  and integer arithmetic on a column wraps around (\<open>wrap_int64\<close>).
  A floating-point value is a real number or one of the special values of IEEE arithmetic
  (type \<open>fval\<close>): \<open>np.exp\<close> underflows to 0 and overflows to infinity, a division by
  zero gives an infinity or NaN, and NaN and the infinities propagate.  The rounding of
  finite results is not modelled.  The freshness score, which is clipped to the interval
  from 0 to 1 right after the exponential, is kept as a real number.
  A timestamp is an instant of the 64-bit nanosecond clock of pandas, and the clock reading
  of a calculator stage is less than \<open>2 ^ 63\<close> nanoseconds (292 years) away from the
  timestamps of its batch.
\<close>

type_synonym pystr = "nat list"

definition py :: "string \<Rightarrow> pystr" where
  "py s = map of_char s"

datatype fval = Fin real | PInf | NInf | NaN

definition int64 :: "int \<Rightarrow> bool" where
  "int64 x = (- 9223372036854775808 \<le> x \<and> x \<le> 9223372036854775807)"

definition wrap_int64 :: "int \<Rightarrow> int" where
  "wrap_int64 x = (x + 9223372036854775808) mod 18446744073709551616 - 9223372036854775808"

record post =
  post_id :: pystr
  username :: pystr
  content :: pystr
  timestamp :: int
  scraped_at :: int
  likes :: int
  replies :: int
  reposts :: int
  total_interactions :: int
  hours_since_post :: "real option"
  time_decay :: "fval option"
  base_heat :: "real option"
  content_length :: "nat option"
  length_factor :: "real option"
  heat_density :: "fval option"
  freshness_score :: "real option"
  user_avg_interactions :: "fval option"
  engagement_rate :: "fval option"
  repost_ratio :: "fval option"
  interaction_velocity :: "fval option"
  has_hashtag :: "int option"
  has_mention :: "int option"
  has_url :: "int option"
  viral_potential :: "fval option"

text \<open>
  \<^verbatim>\<open>(current_time - df['timestamp']).dt.total_seconds() / 3600\<close>: the difference of two
  instants in seconds, divided by 3600.
\<close>

definition hours_between :: "int \<Rightarrow> int \<Rightarrow> real" where
  "hours_between current_time ts = real_of_int (current_time - ts) / 1000000000 / 3600"

section \<open>Floating-point special values\<close>

text \<open>
  Division of two finite floats as numpy and pandas do it: a zero divisor gives an
  infinity with the sign of the dividend, and \<open>0 / 0\<close> gives NaN.
\<close>

definition fdiv_fin :: "real \<Rightarrow> real \<Rightarrow> fval" where
  "fdiv_fin x y =
     (if y \<noteq> 0 then Fin (x / y) else if 0 < x then PInf else if x < 0 then NInf else NaN)"

fun fdiv :: "fval \<Rightarrow> fval \<Rightarrow> fval" where
  "fdiv NaN _ = NaN"
| "fdiv _ NaN = NaN"
| "fdiv (Fin x) (Fin y) = fdiv_fin x y"
| "fdiv (Fin x) PInf = Fin 0"
| "fdiv (Fin x) NInf = Fin 0"
| "fdiv PInf (Fin y) = (if y < 0 then NInf else PInf)"
| "fdiv NInf (Fin y) = (if y < 0 then PInf else NInf)"
| "fdiv PInf PInf = NaN"
| "fdiv PInf NInf = NaN"
| "fdiv NInf PInf = NaN"
| "fdiv NInf NInf = NaN"

fun fadd :: "fval \<Rightarrow> fval \<Rightarrow> fval" where
  "fadd NaN _ = NaN"
| "fadd _ NaN = NaN"
| "fadd (Fin x) (Fin y) = Fin (x + y)"
| "fadd (Fin x) PInf = PInf"
| "fadd (Fin x) NInf = NInf"
| "fadd PInf (Fin y) = PInf"
| "fadd NInf (Fin y) = NInf"
| "fadd PInf PInf = PInf"
| "fadd NInf NInf = NInf"
| "fadd PInf NInf = NaN"
| "fadd NInf PInf = NaN"

text \<open>Multiplication of a float by a finite constant.\<close>

fun fscale :: "fval \<Rightarrow> real \<Rightarrow> fval" where
  "fscale (Fin x) c = Fin (x * c)"
| "fscale PInf c = (if 0 < c then PInf else if c < 0 then NInf else NaN)"
| "fscale NInf c = (if 0 < c then NInf else if c < 0 then PInf else NaN)"
| "fscale NaN c = NaN"

text \<open>
  \<^verbatim>\<open>np.exp\<close>: 0 when the argument is below \<open>-745.1332191\<close> (the result is less than half
  of the smallest positive float, \<open>2 ^ -1074\<close>), infinity when it is above \<open>709.7827128\<close>
  (the result is more than the largest float).
\<close>

definition np_exp :: "real \<Rightarrow> fval" where
  "np_exp x =
     (if x < - (7451332191 / 10000000) then Fin 0
      else if 7097827128 / 10000000 < x then PInf
      else Fin (exp x))"

text \<open>\<^verbatim>\<open>np.log1p\<close>: \<open>log (1 + x)\<close>, minus infinity at \<open>-1\<close>, NaN below.\<close>

fun flog1p :: "fval \<Rightarrow> fval" where
  "flog1p (Fin x) = (if - 1 < x then Fin (ln (1 + x)) else if x = - 1 then NInf else NaN)"
| "flog1p PInf = PInf"
| "flog1p NInf = NaN"
| "flog1p NaN = NaN"

text \<open>\<^verbatim>\<open>Series.fillna(d)\<close> and \<^verbatim>\<open>Series.replace([np.inf, -np.inf], d)\<close> on one value.\<close>

fun fillna :: "fval \<Rightarrow> real \<Rightarrow> fval" where
  "fillna NaN d = Fin d"
| "fillna v d = v"

fun replace_inf :: "fval \<Rightarrow> real \<Rightarrow> fval" where
  "replace_inf PInf d = Fin d"
| "replace_inf NInf d = Fin d"
| "replace_inf v d = v"

text \<open>
  The order of floats, with NaN incomparable, and \<^verbatim>\<open>Series.max()\<close>, which skips NaN and
  is NaN when nothing is left.
\<close>

fun fless :: "fval \<Rightarrow> fval \<Rightarrow> bool" where
  "fless NaN _ = False"
| "fless _ NaN = False"
| "fless (Fin x) (Fin y) = (x < y)"
| "fless (Fin x) PInf = True"
| "fless (Fin x) NInf = False"
| "fless PInf _ = False"
| "fless NInf (Fin y) = True"
| "fless NInf PInf = True"
| "fless NInf NInf = False"

fun fmax_skipna :: "fval list \<Rightarrow> fval" where
  "fmax_skipna [] = NaN"
| "fmax_skipna (v # vs) =
     (let m = fmax_skipna vs
      in if v = NaN then m else if m = NaN then v else if fless v m then m else v)"

text \<open>\<^verbatim>\<open>Series.mean()\<close>, which skips NaN too.\<close>

definition fmean_skipna :: "fval list \<Rightarrow> fval" where
  "fmean_skipna vs =
     (case filter (\<lambda>v. v \<noteq> NaN) vs of
        [] \<Rightarrow> NaN
      | w # ws \<Rightarrow> fdiv (foldl fadd w ws) (Fin (real (length (w # ws)))))"

section \<open>Metric calculator: heat density\<close>

text \<open>
  \<^verbatim>\<open>calculate_heat_density\<close>, lines 188-235.  \<open>heat_density_raw\<close> is the value of the column
  \<^verbatim>\<open>heat_density\<close> before the normalisation of lines 226-228:
  \<^verbatim>\<open>base_heat * time_decay * (1 + length_factor)\<close>.
\<close>

definition time_decay_of :: "int \<Rightarrow> post \<Rightarrow> fval" where
  "time_decay_of current_time p =
     np_exp (- (1 / 10) * hours_between current_time (timestamp p) / 24)"

definition base_heat_of :: "post \<Rightarrow> real" where
  "base_heat_of p =
     real_of_int (likes p) * 1 + real_of_int (replies p) * 2 + real_of_int (reposts p) * (3 / 2)"

definition length_factor_of :: "post \<Rightarrow> real" where
  "length_factor_of p = ln (1 + real (length (content p))) / 10"

definition heat_density_raw :: "int \<Rightarrow> post \<Rightarrow> fval" where
  "heat_density_raw current_time p =
     fscale (fscale (time_decay_of current_time p) (base_heat_of p)) (1 + length_factor_of p)"

definition calculate_heat_density :: "int \<Rightarrow> post list \<Rightarrow> post list" where
  "calculate_heat_density current_time df =
     (if df = [] then df
      else
        let m = fmax_skipna (map (heat_density_raw current_time) df)
        in map (\<lambda>p. p\<lparr>hours_since_post := Some (hours_between current_time (timestamp p)),
                       time_decay := Some (time_decay_of current_time p),
                       base_heat := Some (base_heat_of p),
                       content_length := Some (length (content p)),
                       length_factor := Some (length_factor_of p),
                       heat_density :=
                         Some (if fless (Fin 0) m
                               then fscale (fdiv (heat_density_raw current_time p) m) 100
                               else heat_density_raw current_time p)\<rparr>) df)"




section \<open>Metric calculator: freshness\<close>

text \<open>
  \<^verbatim>\<open>Series.clip(lower, upper)\<close>: values below \<open>lower\<close> become \<open>lower\<close>, values above
  \<open>upper\<close> become \<open>upper\<close>.
\<close>

definition clip :: "real \<Rightarrow> real \<Rightarrow> real \<Rightarrow> real" where
  "clip lower upper x = min upper (max lower x)"

definition freshness_of :: "real \<Rightarrow> real" where
  "freshness_of hours = clip 0 1 (exp (- hours / 24))"

text \<open>
  \<^verbatim>\<open>calculate_freshness_score\<close>, lines 237-264.  The stage reads the clock itself and
  assigns the column \<^verbatim>\<open>hours_since_post\<close> again (line 252).
\<close>

definition calculate_freshness_score :: "int \<Rightarrow> post list \<Rightarrow> post list" where
  "calculate_freshness_score current_time df =
     (if df = [] then df
      else map (\<lambda>p. p\<lparr>hours_since_post := Some (hours_between current_time (timestamp p)),
                       freshness_score :=
                         Some (freshness_of (hours_between current_time (timestamp p)))\<rparr>) df)"

section \<open>Metric calculator: engagement rate\<close>

text \<open>
  \<^verbatim>\<open>df.groupby('username')['total_interactions'].mean()\<close> looked up at one user name
  (\<^verbatim>\<open>Series.map\<close> gives NaN for a name that has no group).
\<close>

definition user_avg :: "post list \<Rightarrow> pystr \<Rightarrow> fval" where
  "user_avg df u =
     (case filter (\<lambda>p. username p = u) df of
        [] \<Rightarrow> NaN
      | g # gs \<Rightarrow>
          Fin (real_of_int (sum_list (map total_interactions (g # gs))) / real (length (g # gs))))"

text \<open>\<^verbatim>\<open>calculate_engagement_rate\<close>, lines 266-297.\<close>

definition engagement_of :: "post list \<Rightarrow> post \<Rightarrow> fval" where
  "engagement_of df p =
     (let ratio = fdiv (Fin (real_of_int (total_interactions p))) (fillna (user_avg df (username p)) 1);
          rate = fillna (replace_inf ratio 1) 1
      in flog1p rate)"

definition calculate_engagement_rate :: "post list \<Rightarrow> post list" where
  "calculate_engagement_rate df =
     (if df = [] then df
      else map (\<lambda>p. p\<lparr>user_avg_interactions := Some (user_avg df (username p)),
                       engagement_rate := Some (engagement_of df p)\<rparr>) df)"

section \<open>Metric calculator: viral potential\<close>

text \<open>
  \<^verbatim>\<open>Series.str.contains(pat, na=False)\<close> for a pattern without regular-expression
  metacharacters (\<^verbatim>\<open>'#'\<close>, \<^verbatim>\<open>'@'\<close>, \<^verbatim>\<open>'http'\<close>): the pattern occurs as a substring.
\<close>

primrec str_contains :: "pystr \<Rightarrow> pystr \<Rightarrow> bool" where
  "str_contains [] pat = (pat = [])"
| "str_contains (c # cs) pat = (prefix pat (c # cs) \<or> str_contains cs pat)"

text \<open>Line 315: the column \<^verbatim>\<open>repost_ratio\<close>.\<close>

definition set_repost_ratio :: "post \<Rightarrow> post" where
  "set_repost_ratio p =
     p\<lparr>repost_ratio :=
         Some (fdiv_fin (real_of_int (reposts p))
                        (real_of_int (wrap_int64 (total_interactions p + 1))))\<rparr>"

text \<open>Lines 318-323: \<^verbatim>\<open>interaction_velocity\<close> and the three content signals.\<close>

definition set_velocity_signals :: "post \<Rightarrow> real \<Rightarrow> post" where
  "set_velocity_signals p hours =
     p\<lparr>interaction_velocity :=
         Some (fdiv_fin (real_of_int (total_interactions p)) (hours + 1)),
       has_hashtag := Some (if str_contains (content p) (py ''#'') then 1 else 0),
       has_mention := Some (if str_contains (content p) (py ''@'') then 1 else 0),
       has_url := Some (if str_contains (content p) (py ''http'') then 1 else 0)\<rparr>"

text \<open>
  Lines 326-331: the weighted sum, read from the columns assigned above (they exist when
  this is evaluated) and from \<^verbatim>\<open>freshness_score\<close>.
\<close>

definition viral_raw :: "post \<Rightarrow> real \<Rightarrow> fval" where
  "viral_raw p fresh =
     fadd (fadd (fadd (fscale (case repost_ratio p of Some r \<Rightarrow> r | None \<Rightarrow> NaN) (4 / 10))
                      (fscale (flog1p (case interaction_velocity p of Some v \<Rightarrow> v | None \<Rightarrow> NaN))
                              (3 / 10)))
                (Fin (real_of_int ((case has_hashtag p of Some b \<Rightarrow> b | None \<Rightarrow> 0) +
                                   (case has_mention p of Some b \<Rightarrow> b | None \<Rightarrow> 0) +
                                   (case has_url p of Some b \<Rightarrow> b | None \<Rightarrow> 0)) * (1 / 10))))
          (Fin (fresh * (2 / 10)))"

text \<open>Lines 334-335: division by the batch maximum, only when it is greater than 0.\<close>

definition set_viral_potential :: "fval \<Rightarrow> post \<Rightarrow> fval \<Rightarrow> post" where
  "set_viral_potential m p v =
     p\<lparr>viral_potential := Some (if fless (Fin 0) m then fdiv v m else v)\<rparr>"

text \<open>
  \<^verbatim>\<open>calculate_viral_potential\<close>, lines 299-341.  The stage reads the columns
  \<^verbatim>\<open>hours_since_post\<close> and \<^verbatim>\<open>freshness_score\<close>; when one of them does not exist the
  \<^verbatim>\<open>KeyError\<close> is caught at line 339 and the frame is returned with the columns assigned so far.
\<close>

definition calculate_viral_potential :: "post list \<Rightarrow> post list" where
  "calculate_viral_potential df =
     (if df = [] then df
      else
        let df1 = map set_repost_ratio df
        in case those (map hours_since_post df1) of
             None \<Rightarrow> df1
           | Some hours \<Rightarrow>
               let df2 = map2 set_velocity_signals df1 hours
               in case those (map freshness_score df2) of
                    None \<Rightarrow> df2
                  | Some fresh \<Rightarrow>
                      let raw = map2 viral_raw df2 fresh
                      in map2 (set_viral_potential (fmax_skipna raw)) df2 raw)"

section \<open>Topic clusterer: trending score\<close>

text \<open>
  \<^verbatim>\<open>_calculate_trending_score\<close>, lines 561-586.  Every exception is caught and gives 0.0;
  on a frame with the columns \<^verbatim>\<open>timestamp\<close> and \<^verbatim>\<open>total_interactions\<close> the only one is
  the \<^verbatim>\<open>KeyError\<close> of line 580, when the column \<^verbatim>\<open>freshness_score\<close> does not exist.
  \<^verbatim>\<open>Series.sum()\<close> of the 64-bit column \<^verbatim>\<open>total_interactions\<close> wraps around.  The
  difference of two timestamps is a \<^verbatim>\<open>Timedelta\<close>, a 64-bit count of nanoseconds: when the
  difference does not fit, pandas raises, and the result is 0.0.
\<close>

definition calculate_trending_score :: "post list \<Rightarrow> real" where
  "calculate_trending_score cluster_posts =
     (let posts_sorted = sort_key timestamp cluster_posts
      in if length posts_sorted < 2 then 0
         else if \<not> int64 (timestamp (last posts_sorted) - timestamp (hd posts_sorted)) then 0
         else
           let time_diff =
                 real_of_int (timestamp (last posts_sorted) - timestamp (hd posts_sorted))
                   / 1000000000 / 3600
           in if time_diff \<le> 0 then 0
              else
                let interaction_velocity =
                      real_of_int (wrap_int64 (sum_list (map total_interactions posts_sorted)))
                        / time_diff
                in case those (map freshness_score posts_sorted) of
                     None \<Rightarrow> 0
                   | Some fresh \<Rightarrow>
                       let avg_freshness = sum_list fresh / real (length fresh);
                           trending_score = interaction_velocity * avg_freshness
                       in min (trending_score / 100) 1)"

text \<open>
  The quantities the specification names: the time span of a cluster in hours (latest
  minus earliest timestamp), the sum of its interactions (the sum of the integers, without
  wrap-around), and its mean freshness score.  \<open>time_span_ns\<close> is the time span in
  nanoseconds.
\<close>

definition time_span_ns :: "post list \<Rightarrow> int" where
  "time_span_ns c = Max (set (map timestamp c)) - Min (set (map timestamp c))"

definition time_span_hours :: "post list \<Rightarrow> real" where
  "time_span_hours c =
     real_of_int (Max (set (map timestamp c)) - Min (set (map timestamp c))) / 1000000000 / 3600"

definition sum_interactions :: "post list \<Rightarrow> int" where
  "sum_interactions c = sum_list (map total_interactions c)"

definition mean_freshness :: "post list \<Rightarrow> real" where
  "mean_freshness c =
     sum_list (map (\<lambda>p. case freshness_score p of Some f \<Rightarrow> f | None \<Rightarrow> 0) c) / real (length c)"

section \<open>Keyword trend analyzer: momentum\<close>

text \<open>
  \<^verbatim>\<open>Series.dt.date\<close>: the calendar day (UTC) of a timestamp, as a day number.  A calendar
  date such as \<^verbatim>\<open>current_date\<close> is a day number too.
\<close>

definition date_of :: "int \<Rightarrow> int" where
  "date_of ts = ts div 86400000000000"

text \<open>
  \<^verbatim>\<open>groupby(dates).size()\<close>: one entry for every date that occurs, in ascending order of
  the date, with the number of rows of that date.
\<close>

definition daily_counts :: "int list \<Rightarrow> (int \<times> nat) list" where
  "daily_counts ds = map (\<lambda>d. (d, count_list ds d)) (sort (remdups ds))"

text \<open>
  \<^verbatim>\<open>_calculate_keyword_momentum\<close>, lines 655-684.  The parameter \<open>contains\<close> is
  \<^verbatim>\<open>Series.str.contains(keyword, case=False, na=False)\<close> of pandas on one text: a
  case-insensitive regular-expression search.  A keyword that is not a valid pattern makes
  pandas raise; the exception is caught at line 683 and the result is 0.0, the result of
  the model for a \<open>contains\<close> that finds nothing.

  \<open>end_date\<close> and \<open>start_date\<close> are values of \<^verbatim>\<open>pd.Timestamp\<close>, a 64-bit count of
  nanoseconds: \<open>timestamp_day\<close> holds for the day numbers of the dates whose midnight is
  such a value, from 1677-09-22 to 2262-04-11.  For another \<open>current_date\<close>, or when
  \<open>current_date - days\<close> is not such a date, line 659 or 660 raises and the result is 0.0.
\<close>

definition timestamp_day :: "int \<Rightarrow> bool" where
  "timestamp_day d = (- 106751 \<le> d \<and> d \<le> 106751)"

definition calculate_keyword_momentum ::
  "(pystr \<Rightarrow> pystr \<Rightarrow> bool) \<Rightarrow> pystr \<Rightarrow> int \<Rightarrow> post list \<Rightarrow> int \<Rightarrow> real" where
  "calculate_keyword_momentum contains keyword current_date df days =
     (if \<not> timestamp_day current_date \<or> \<not> timestamp_day (current_date - days) then 0
      else
        let end_date = current_date;
            start_date = end_date - days;
            recent_posts = filter (\<lambda>p. start_date \<le> date_of (timestamp p) \<and>
                                        date_of (timestamp p) \<le> end_date \<and>
                                        contains (content p) keyword) df
        in if length recent_posts < 2 then 0
           else
             let values = map snd (daily_counts (map (\<lambda>p. date_of (timestamp p)) recent_posts))
             in if length values < 2 then 0
                else
                  let momentum =
                        (if 1 < length values
                         then (real (last values) - real (hd values)) / real (length values - 1)
                         else 0)
                  in max 0 momentum)"

text \<open>The default \<^verbatim>\<open>days=3\<close>, which is also what \<^verbatim>\<open>analyze_keyword_trends\<close> passes (line 630).\<close>

definition calculate_keyword_momentum_default ::
  "(pystr \<Rightarrow> pystr \<Rightarrow> bool) \<Rightarrow> pystr \<Rightarrow> int \<Rightarrow> post list \<Rightarrow> real" where
  "calculate_keyword_momentum_default contains keyword current_date df =
     calculate_keyword_momentum contains keyword current_date df 3"

text \<open>
  The window that the code filters on: the dates from \<open>current_date - days\<close> to
  \<open>current_date\<close>, both included, which are \<open>days + 1\<close> calendar dates.  \<open>matching_dates\<close> is
  the list of the dates of the keyword-matching posts in this window, with repetition:
  \<open>count_list\<close> of it at a date is the daily occurrence count of that date, and the number
  of different dates in it is the number of distinct days of data.
\<close>

definition in_lookback_window :: "int \<Rightarrow> int \<Rightarrow> post \<Rightarrow> bool" where
  "in_lookback_window current_date days p =
     (current_date - days \<le> date_of (timestamp p) \<and> date_of (timestamp p) \<le> current_date)"

definition matching_dates ::
  "(pystr \<Rightarrow> pystr \<Rightarrow> bool) \<Rightarrow> pystr \<Rightarrow> int \<Rightarrow> post list \<Rightarrow> int \<Rightarrow> int list" where
  "matching_dates contains keyword current_date df days =
     map (\<lambda>p. date_of (timestamp p))
       (filter (\<lambda>p. in_lookback_window current_date days p \<and> contains (content p) keyword) df)"

definition distinct_days :: "int list \<Rightarrow> nat" where
  "distinct_days ds = card (set ds)"

text \<open>
  The words of the specification.  A lookback window of \<open>days\<close> days that ends at
  \<open>current_date\<close>, the end date included: the \<open>days\<close> calendar dates from
  \<open>current_date - days + 1\<close> to \<open>current_date\<close>.  The momentum of the specification over
  this window: 0 with fewer than 2 distinct days of data, otherwise (count on the last day
  of the window - count on the first day of the window) / (number of days of the
  window - 1), and 0 when that is negative.
\<close>

definition in_specified_window :: "int \<Rightarrow> int \<Rightarrow> post \<Rightarrow> bool" where
  "in_specified_window current_date days p =
     (current_date - days < date_of (timestamp p) \<and> date_of (timestamp p) \<le> current_date)"

definition specified_dates ::
  "(pystr \<Rightarrow> pystr \<Rightarrow> bool) \<Rightarrow> pystr \<Rightarrow> int \<Rightarrow> post list \<Rightarrow> int \<Rightarrow> int list" where
  "specified_dates contains keyword current_date df days =
     map (\<lambda>p. date_of (timestamp p))
       (filter (\<lambda>p. in_specified_window current_date days p \<and> contains (content p) keyword) df)"

definition specified_momentum ::
  "(pystr \<Rightarrow> pystr \<Rightarrow> bool) \<Rightarrow> pystr \<Rightarrow> int \<Rightarrow> post list \<Rightarrow> int \<Rightarrow> real" where
  "specified_momentum contains keyword current_date df days =
     (let ds = specified_dates contains keyword current_date df days
      in if distinct_days ds < 2 then 0
         else max 0 ((real (count_list ds current_date) -
                      real (count_list ds (current_date - days + 1))) / real_of_int (days - 1)))"


section \<open>The processor and the libraries it calls\<close>

text \<open>
  The attributes of \<^verbatim>\<open>DataProcessor\<close> that the engine reads (lines 91-110): the stopword
  set, the sentiment analyzer (\<open>None\<close> when it could not be initialised; otherwise the
  compound polarity score of a text) and the three configuration values.
\<close>

record data_processor =
  chinese_stopwords :: "pystr set"
  sentiment_analyzer :: "(pystr \<Rightarrow> real) option"
  min_interactions_threshold :: int
  max_topics :: int
  keyword_min_freq :: int

text \<open>The configuration when the environment variables are not set (lines 108-110).\<close>

definition default_processor :: "pystr set \<Rightarrow> (pystr \<Rightarrow> real) option \<Rightarrow> data_processor" where
  "default_processor stopwords analyzer =
     \<lparr>chinese_stopwords = stopwords, sentiment_analyzer = analyzer,
      min_interactions_threshold = 5, max_topics = 20, keyword_min_freq = 3\<rparr>"

datatype py_error = KeyError | IndexError | ValueError

text \<open>
  The library functions are parameters of the model, since their code is not part of the
  repository:
  \<^item> \<open>jieba_cut\<close>: \<^verbatim>\<open>jieba.cut\<close>, the list of segments of a text;
  \<^item> \<open>str_lower\<close>, \<open>str_isdigit\<close>: \<^verbatim>\<open>str.lower\<close> and \<^verbatim>\<open>str.isdigit\<close> (Unicode tables);
  \<^item> \<open>tfidf_fit_transform max_features min_df docs\<close>: \<^verbatim>\<open>TfidfVectorizer\<close> with
    \<^verbatim>\<open>max_df=0.8\<close> and \<^verbatim>\<open>ngram_range=(1, 2)\<close>, fitted on the documents; it raises (for
    instance on an empty vocabulary) or gives the feature names and the dense matrix, one
    row per document and one column per feature name;
  \<^item> \<open>kmeans_fit_predict n_clusters matrix\<close>: \<^verbatim>\<open>KMeans\<close> with \<^verbatim>\<open>random_state=42\<close> and
    \<^verbatim>\<open>n_init=10\<close>; it raises or gives the label of every row and the cluster centres;
  \<^item> \<open>argsort\<close>: \<^verbatim>\<open>numpy.ndarray.argsort\<close>.
\<close>

record library =
  jieba_cut :: "pystr \<Rightarrow> pystr list"
  str_lower :: "pystr \<Rightarrow> pystr"
  str_isdigit :: "pystr \<Rightarrow> bool"
  tfidf_fit_transform :: "int \<Rightarrow> int \<Rightarrow> pystr list \<Rightarrow> py_error + (pystr list \<times> real list list)"
  kmeans_fit_predict :: "int \<Rightarrow> real list list \<Rightarrow> py_error + (nat list \<times> real list list)"
  argsort :: "real list \<Rightarrow> nat list"

section \<open>Text feature extractor\<close>

text \<open>\<^verbatim>\<open>str.strip()\<close> removes the white space of Python at both ends.\<close>

definition is_space :: "nat \<Rightarrow> bool" where
  "is_space c =
     ((9 \<le> c \<and> c \<le> 13) \<or> (28 \<le> c \<and> c \<le> 32) \<or> c = 133 \<or> c = 160 \<or> c = 5760 \<or>
      (8192 \<le> c \<and> c \<le> 8202) \<or> c = 8232 \<or> c = 8233 \<or> c = 8239 \<or> c = 8287 \<or> c = 12288)"

definition strip :: "pystr \<Rightarrow> pystr" where
  "strip s = rev (dropWhile is_space (rev (dropWhile is_space s)))"

text \<open>\<^verbatim>\<open>' '.join(words)\<close>.\<close>

fun join_space :: "pystr list \<Rightarrow> pystr" where
  "join_space [] = []"
| "join_space [w] = w"
| "join_space (w # ws) = w @ [32] @ join_space ws"

text \<open>
  \<^verbatim>\<open>re.match\<close> with the pattern of line 373: one or more characters that are Latin
  letters or have a code point from 4e00 to 9fff (CJK ideographs), up to the end of the
  word or up to a final line feed.
\<close>

definition token_char :: "nat \<Rightarrow> bool" where
  "token_char c = ((97 \<le> c \<and> c \<le> 122) \<or> (65 \<le> c \<and> c \<le> 90) \<or> (19968 \<le> c \<and> c \<le> 40959))"

definition re_match_token :: "pystr \<Rightarrow> bool" where
  "re_match_token word =
     (let body = (if word \<noteq> [] \<and> last word = 10 then butlast word else word)
      in body \<noteq> [] \<and> list_all token_char body)"

text \<open>Lines 365-374: the words of one text that survive the filter of \<^verbatim>\<open>extract_keywords\<close>.\<close>

definition keep_word :: "library \<Rightarrow> data_processor \<Rightarrow> pystr \<Rightarrow> bool" where
  "keep_word lib self word =
     (1 < length (strip word) \<and> strip word \<notin> chinese_stopwords self \<and>
      \<not> str_isdigit lib (strip word) \<and> re_match_token (strip word))"

definition filtered_words :: "library \<Rightarrow> data_processor \<Rightarrow> pystr \<Rightarrow> pystr list" where
  "filtered_words lib self text =
     map strip (filter (keep_word lib self) (jieba_cut lib (str_lower lib text)))"

text \<open>
  Lines 359-377: blank texts are skipped, and so are texts with no surviving word.  The
  texts are strings (\<^verbatim>\<open>List[str]\<close>), for which \<^verbatim>\<open>pd.isna\<close> is false.
\<close>

definition processed_texts :: "library \<Rightarrow> data_processor \<Rightarrow> pystr list \<Rightarrow> pystr list" where
  "processed_texts lib self texts =
     concat (map (\<lambda>text. if strip text = [] then []
                          else if filtered_words lib self text \<noteq> []
                               then [join_space (filtered_words lib self text)] else []) texts)"

text \<open>\<^verbatim>\<open>np.mean(matrix, axis=0)\<close> at column \<open>j\<close>.\<close>

definition column_mean :: "real list list \<Rightarrow> nat \<Rightarrow> real" where
  "column_mean matrix j = sum_list (map (\<lambda>row. row ! j) matrix) / real (length matrix)"

text \<open>
  \<^verbatim>\<open>keyword_scores.sort(key=lambda x: x[1], reverse=True)\<close>: the sort of Python is stable,
  also with \<^verbatim>\<open>reverse=True\<close>, so pairs of equal weight keep their order.
\<close>

definition sort_by_weight_desc :: "(pystr \<times> real) list \<Rightarrow> (pystr \<times> real) list" where
  "sort_by_weight_desc keyword_scores = sort_key (\<lambda>x. - snd x) keyword_scores"

text \<open>Lines 390-400 of \<^verbatim>\<open>extract_keywords\<close>: from the vectorizer's result to the answer.\<close>

definition keyword_scores_of :: "pystr list \<Rightarrow> real list list \<Rightarrow> (pystr \<times> real) list" where
  "keyword_scores_of feature_names matrix =
     zip feature_names (map (column_mean matrix) [0..<length feature_names])"

text \<open>
  \<^verbatim>\<open>extract_keywords\<close>, lines 343-404.  Every exception of the body is caught at line 402
  and gives the empty list.
\<close>

definition extract_keywords_body ::
  "library \<Rightarrow> data_processor \<Rightarrow> pystr list \<Rightarrow> int \<Rightarrow> py_error + (pystr \<times> real) list" where
  "extract_keywords_body lib self texts max_features =
     (if processed_texts lib self texts = [] then Inr []
      else case tfidf_fit_transform lib max_features (keyword_min_freq self)
                  (processed_texts lib self texts) of
             Inl e \<Rightarrow> Inl e
           | Inr (feature_names, matrix) \<Rightarrow>
               Inr (take 50 (sort_by_weight_desc (keyword_scores_of feature_names matrix))))"

definition extract_keywords ::
  "library \<Rightarrow> data_processor \<Rightarrow> pystr list \<Rightarrow> int \<Rightarrow> (pystr \<times> real) list" where
  "extract_keywords lib self texts max_features =
     (if texts = [] then []
      else case extract_keywords_body lib self texts max_features of
             Inl e \<Rightarrow> []
           | Inr keyword_scores \<Rightarrow> keyword_scores)"

text \<open>
  The order in which the terms are first seen: the position of the first occurrence of a
  term in the stream of the surviving words of all texts.
\<close>

definition word_stream :: "library \<Rightarrow> data_processor \<Rightarrow> pystr list \<Rightarrow> pystr list" where
  "word_stream lib self texts = concat (map (filtered_words lib self) texts)"

fun first_seen :: "pystr list \<Rightarrow> pystr \<Rightarrow> nat" where
  "first_seen [] term = 0"
| "first_seen (w # ws) term = (if w = term then 0 else Suc (first_seen ws term))"

text \<open>
  The claim that the terms of equal weight come in first-seen order: of two entries of the
  result with the same weight, the earlier one was first seen no later than the other.
\<close>

definition ties_in_first_seen_order :: "pystr list \<Rightarrow> (pystr \<times> real) list \<Rightarrow> bool" where
  "ties_in_first_seen_order stream out =
     (\<forall>i<length out. \<forall>j<length out.
        i < j \<and> snd (out ! i) = snd (out ! j) \<longrightarrow>
        first_seen stream (fst (out ! i)) \<le> first_seen stream (fst (out ! j)))"

section \<open>Topic clusterer\<close>

record topic_summary =
  topic_id :: int
  topic_keywords :: "pystr list"
  topic_name :: pystr
  post_count :: nat
  average_heat_density :: fval
  topic_total_interactions :: int
  dominant_sentiment :: pystr
  trending_score :: real

text \<open>\<^verbatim>\<open>_generate_topic_name\<close>, lines 509-532; \<open>keyword in primary_keyword\<close> is a substring test.\<close>

definition tech_keywords :: "pystr list" where
  "tech_keywords = [[97, 105], [20154, 24037, 26234, 24935], [31185, 25216], [25216, 34899],
     [36575, 39636], [31243, 24335], [25976, 25818]]"

definition finance_keywords :: "pystr list" where
  "finance_keywords = [[25237, 36039], [32929, 31080], [37329, 34701], [32147, 28639],
     [24066, 22580], [20729, 26684], [21033, 29575]]"

definition social_keywords :: "pystr list" where
  "social_keywords = [[31038, 26371], [25919, 27835], [26032, 32862], [20107, 20214],
     [35342, 35542], [35264, 40670]]"

definition life_keywords :: "pystr list" where
  "life_keywords = [[29983, 27963], [20581, 24247], [32654, 39135], [26053, 34892],
     [23067, 27138], [38651, 24433], [38899, 27138]]"

definition generate_topic_name :: "pystr list \<Rightarrow> pystr" where
  "generate_topic_name keywords =
     (case keywords of
        [] \<Rightarrow> [26410, 30693, 20027, 38988]
      | primary_keyword # _ \<Rightarrow>
          if list_ex (str_contains primary_keyword) tech_keywords
          then [31185, 25216, 36264, 21218, 32, 45, 32] @ primary_keyword
          else if list_ex (str_contains primary_keyword) finance_keywords
          then [36001, 32147, 21205, 24907, 32, 45, 32] @ primary_keyword
          else if list_ex (str_contains primary_keyword) social_keywords
          then [31038, 26371, 35696, 38988, 32, 45, 32] @ primary_keyword
          else if list_ex (str_contains primary_keyword) life_keywords
          then [29983, 27963, 20998, 20139, 32, 45, 32] @ primary_keyword
          else [29105, 38272, 35441, 38988, 32, 45, 32] @ primary_keyword)"

text \<open>\<^verbatim>\<open>_analyze_cluster_sentiment\<close>, lines 534-559.\<close>

definition analyze_cluster_sentiment :: "data_processor \<Rightarrow> pystr list \<Rightarrow> pystr" where
  "analyze_cluster_sentiment self contents =
     (case sentiment_analyzer self of
        None \<Rightarrow> py ''neutral''
      | Some compound \<Rightarrow>
          if contents = [] then py ''neutral''
          else
            let sentiment_scores = map compound (filter (\<lambda>c. c \<noteq> [] \<and> strip c \<noteq> []) contents)
            in if sentiment_scores = [] then py ''neutral''
               else
                 let avg_sentiment = sum_list sentiment_scores / real (length sentiment_scores)
                 in if 1 / 10 < avg_sentiment then py ''positive''
                    else if avg_sentiment < - (1 / 10) then py ''negative''
                    else py ''neutral'')"

text \<open>Indexing that raises \<^verbatim>\<open>IndexError\<close> out of range.\<close>

definition py_nth :: "'a list \<Rightarrow> nat \<Rightarrow> py_error + 'a" where
  "py_nth xs i = (if i < length xs then Inr (xs ! i) else Inl IndexError)"

fun sequence_err :: "(py_error + 'a) list \<Rightarrow> py_error + 'a list" where
  "sequence_err [] = Inr []"
| "sequence_err (x # xs) =
     (case x of
        Inl e \<Rightarrow> Inl e
      | Inr v \<Rightarrow> (case sequence_err xs of Inl e \<Rightarrow> Inl e | Inr vs \<Rightarrow> Inr (v # vs)))"

text \<open>
  Lines 462-500: one turn of the loop over the cluster numbers; the result is the list of
  the topics it appends (none or one), or the exception that ends the loop.
\<close>

definition cluster_topic ::
  "library \<Rightarrow> data_processor \<Rightarrow> post list \<Rightarrow> pystr list \<Rightarrow> nat list \<Rightarrow> real list list \<Rightarrow>
   nat \<Rightarrow> py_error + topic_summary list" where
  "cluster_topic lib self filtered_df feature_names cluster_labels cluster_centers cluster_id =
     (let cluster_posts = map fst (filter (\<lambda>(p, l). l = cluster_id) (zip filtered_df cluster_labels))
      in if length cluster_posts < 2 then Inr []
         else case py_nth cluster_centers cluster_id of
           Inl e \<Rightarrow> Inl e
         | Inr cluster_center \<Rightarrow>
             let sorted_indices = argsort lib cluster_center;
                 top_indices = rev (drop (length sorted_indices - 10) sorted_indices)
             in case sequence_err (map (\<lambda>i. case py_nth cluster_center i of
                                               Inl e \<Rightarrow> Inl e
                                             | Inr w \<Rightarrow>
                                                 if 0 < w
                                                 then (case py_nth feature_names i of
                                                         Inl e \<Rightarrow> Inl e
                                                       | Inr name \<Rightarrow> Inr [name])
                                                 else Inr []) top_indices) of
                  Inl e \<Rightarrow> Inl e
                | Inr found \<Rightarrow>
                    let cluster_keywords = concat found
                    in if cluster_keywords = [] then Inr []
                       else case those (map heat_density cluster_posts) of
                         None \<Rightarrow> Inl KeyError
                       | Some heat \<Rightarrow>
                           Inr [\<lparr>topic_id = int cluster_id + 1,
                                 topic_keywords = take 5 cluster_keywords,
                                 topic_name = generate_topic_name cluster_keywords,
                                 post_count = length cluster_posts,
                                 average_heat_density = fmean_skipna heat,
                                 topic_total_interactions =
                                   wrap_int64 (sum_list (map total_interactions cluster_posts)),
                                 dominant_sentiment =
                                   analyze_cluster_sentiment self (map content cluster_posts),
                                 trending_score = calculate_trending_score cluster_posts\<rparr>])"

text \<open>Lines 432-439: the words of one text that the clusterer keeps.\<close>

definition cluster_words :: "library \<Rightarrow> data_processor \<Rightarrow> pystr \<Rightarrow> pystr list" where
  "cluster_words lib self text =
     map strip (filter (\<lambda>word. 1 < length (strip word) \<and> strip word \<notin> chinese_stopwords self)
                       (jieba_cut lib (str_lower lib text)))"

text \<open>Lines 422-503: the body of the \<^verbatim>\<open>try\<close> block of \<^verbatim>\<open>perform_topic_clustering\<close>.\<close>

definition perform_topic_clustering_body ::
  "library \<Rightarrow> data_processor \<Rightarrow> post list \<Rightarrow> py_error + topic_summary list" where
  "perform_topic_clustering_body lib self df =
     (let filtered_df = filter (\<lambda>p. min_interactions_threshold self \<le> total_interactions p) df
      in if length filtered_df < 3 then Inr []
         else
           let processed = map (\<lambda>p. join_space (cluster_words lib self (content p))) filtered_df
           in case tfidf_fit_transform lib 200 2 processed of
                Inl e \<Rightarrow> Inl e
              | Inr (feature_names, tfidf_matrix) \<Rightarrow>
                  let n_clusters = min (max_topics self) (max 2 (int (length filtered_df) div 10))
                  in case kmeans_fit_predict lib n_clusters tfidf_matrix of
                       Inl e \<Rightarrow> Inl e
                     | Inr (cluster_labels, cluster_centers) \<Rightarrow>
                         (case sequence_err
                                 (map (cluster_topic lib self filtered_df feature_names
                                         cluster_labels cluster_centers)
                                      [0..<nat n_clusters]) of
                            Inl e \<Rightarrow> Inl e
                          | Inr topics \<Rightarrow> Inr (concat topics)))"

text \<open>
  \<^verbatim>\<open>perform_topic_clustering\<close>, lines 406-507: the guard on the size of the batch, and the
  handler of line 505 that turns every exception of the body into the empty list.
\<close>

definition perform_topic_clustering ::
  "library \<Rightarrow> data_processor \<Rightarrow> post list \<Rightarrow> topic_summary list" where
  "perform_topic_clustering lib self df =
     (if df = [] \<or> length df < 5 then []
      else case perform_topic_clustering_body lib self df of
             Inl e \<Rightarrow> []
           | Inr topics \<Rightarrow> topics)"

section \<open>Which columns a stage leaves alone\<close>

text \<open>
  \<open>raw_fields_kept p q\<close>: row \<open>q\<close> has the raw columns of row \<open>p\<close>.  The other predicates
  say the same of the columns that one stage assigns; \<^verbatim>\<open>hours_since_post\<close>, which two
  stages assign, has a predicate of its own.
\<close>

definition raw_fields_kept :: "post \<Rightarrow> post \<Rightarrow> bool" where
  "raw_fields_kept p q =
     (post_id q = post_id p \<and> username q = username p \<and> content q = content p \<and>
      timestamp q = timestamp p \<and> scraped_at q = scraped_at p \<and> likes q = likes p \<and>
      replies q = replies p \<and> reposts q = reposts p \<and>
      total_interactions q = total_interactions p)"

definition hours_kept :: "post \<Rightarrow> post \<Rightarrow> bool" where
  "hours_kept p q = (hours_since_post q = hours_since_post p)"

definition heat_fields_kept :: "post \<Rightarrow> post \<Rightarrow> bool" where
  "heat_fields_kept p q =
     (time_decay q = time_decay p \<and> base_heat q = base_heat p \<and>
      content_length q = content_length p \<and> length_factor q = length_factor p \<and>
      heat_density q = heat_density p)"

definition freshness_fields_kept :: "post \<Rightarrow> post \<Rightarrow> bool" where
  "freshness_fields_kept p q = (freshness_score q = freshness_score p)"

definition engagement_fields_kept :: "post \<Rightarrow> post \<Rightarrow> bool" where
  "engagement_fields_kept p q =
     (user_avg_interactions q = user_avg_interactions p \<and> engagement_rate q = engagement_rate p)"

definition viral_fields_kept :: "post \<Rightarrow> post \<Rightarrow> bool" where
  "viral_fields_kept p q =
     (repost_ratio q = repost_ratio p \<and> interaction_velocity q = interaction_velocity p \<and>
      has_hashtag q = has_hashtag p \<and> has_mention q = has_mention p \<and>
      has_url q = has_url p \<and> viral_potential q = viral_potential p)"

section \<open>Example batches\<close>

text \<open>
  A row as \<^verbatim>\<open>fetch_raw_posts\<close> builds it (lines 168-179): the raw columns, the column
  \<^verbatim>\<open>total_interactions = likes + replies + reposts\<close> (a sum of 64-bit columns), and no
  derived column yet.
\<close>

definition raw_post :: "pystr \<Rightarrow> pystr \<Rightarrow> pystr \<Rightarrow> int \<Rightarrow> int \<Rightarrow> int \<Rightarrow> int \<Rightarrow> post" where
  "raw_post pid user text ts l r s =
     \<lparr>post_id = pid, username = user, content = text, timestamp = ts, scraped_at = ts,
      likes = l, replies = r, reposts = s, total_interactions = wrap_int64 (l + r + s),
      hours_since_post = None, time_decay = None, base_heat = None, content_length = None,
      length_factor = None, heat_density = None, freshness_score = None,
      user_avg_interactions = None, engagement_rate = None, repost_ratio = None,
      interaction_velocity = None, has_hashtag = None, has_mention = None, has_url = None,
      viral_potential = None\<rparr>"

text \<open>The example batch of the specification: likes 10, 0, 0 and one fresh timestamp.\<close>

definition heat_example :: "post list" where
  "heat_example =
     [raw_post (py ''p1'') (py ''ann'') (py ''hi'') 0 10 0 0,
      raw_post (py ''p2'') (py ''bob'') (py ''hi'') 0 0 0 0,
      raw_post (py ''p3'') (py ''bob'') (py ''hi'') 0 0 0 0]"




text \<open>A user whose posts all have zero interactions, next to an active user.\<close>

definition engagement_example :: "post list" where
  "engagement_example =
     [raw_post (py ''p1'') (py ''ann'') (py ''quiet'') 0 0 0 0,
      raw_post (py ''p2'') (py ''bob'') (py ''loud'') 0 4 1 1,
      raw_post (py ''p3'') (py ''ann'') (py ''silent'') 0 0 0 0]"

text \<open>
  The cluster of the repository's test \<^verbatim>\<open>test_trending_score_calculation\<close>: posts 6, 3 and
  1 hours old with 100, 150 and 200 interactions and freshness 0.8, 0.9 and 0.95.
\<close>

definition trending_example :: "post list" where
  "trending_example =
     [(raw_post (py ''post_1'') (py ''u1'') (py ''a'') (- 21600000000000) 100 0 0)
        \<lparr>freshness_score := Some (8 / 10)\<rparr>,
      (raw_post (py ''post_2'') (py ''u2'') (py ''b'') (- 10800000000000) 150 0 0)
        \<lparr>freshness_score := Some (9 / 10)\<rparr>,
      (raw_post (py ''post_3'') (py ''u3'') (py ''c'') (- 3600000000000) 200 0 0)
        \<lparr>freshness_score := Some (95 / 100)\<rparr>]"

text \<open>
  Two posts an hour apart, each with \<open>2 ^ 62\<close> likes and the freshness score 1.
\<close>

definition trending_overflow_example :: "post list" where
  "trending_overflow_example =
     [(raw_post (py ''post_1'') (py ''u1'') (py ''a'') 0 4611686018427387904 0 0)
        \<lparr>freshness_score := Some 1\<rparr>,
      (raw_post (py ''post_2'') (py ''u2'') (py ''b'') 3600000000000 4611686018427387904 0 0)
        \<lparr>freshness_score := Some 1\<rparr>]"

text \<open>
  A concrete \<open>contains\<close> for the keyword examples: a literal search that folds the case of
  ASCII letters.  On the texts and the keyword of the examples (ASCII letters and spaces)
  it gives what \<^verbatim>\<open>str.contains(keyword, case=False, na=False)\<close> gives.
\<close>

definition ascii_lower :: "pystr \<Rightarrow> pystr" where
  "ascii_lower s = map (\<lambda>c. if 65 \<le> c \<and> c \<le> 90 then c + 32 else c) s"

definition example_contains :: "pystr \<Rightarrow> pystr \<Rightarrow> bool" where
  "example_contains text keyword = str_contains (ascii_lower text) (ascii_lower keyword)"

text \<open>
  The keyword examples of the specification.  \<open>keyword_posts d n\<close> is \<open>n\<close> posts that mention
  "AI", published at noon of day \<open>d\<close>; in \<open>momentum_flat\<close> the keyword occurs 2, 2, 2 times on
  the days 10, 11, 12, and in \<open>momentum_growing\<close> 2, 4, 6 times.  Both batches also hold a
  matching post of day 8 and one of day 13, outside the window of 3 days that ends at day
  12, and a post of day 12 without the keyword.  In \<open>momentum_boundary\<close> the keyword occurs
  once on day 9, the first day of that window, and 3 times on day 12.  In
  \<open>momentum_sparse\<close> it occurs twice on day 10 and 6 times on day 12, and not on day 11.
  \<open>momentum_edge\<close> is \<open>momentum_boundary\<close> without the three other posts.
\<close>

definition keyword_posts :: "int \<Rightarrow> nat \<Rightarrow> post list" where
  "keyword_posts d n =
     replicate n (raw_post (py ''k'') (py ''ann'') (py ''new ai tools'')
                    (d * 86400000000000 + 43200000000000) 1 0 0)"

definition momentum_noise :: "post list" where
  "momentum_noise =
     [raw_post (py ''n1'') (py ''bob'') (py ''AI before'') (8 * 86400000000000) 1 0 0,
      raw_post (py ''n2'') (py ''bob'') (py ''AI after'') (13 * 86400000000000) 1 0 0,
      raw_post (py ''n3'') (py ''bob'') (py ''lunch'') (12 * 86400000000000) 1 0 0]"

definition momentum_boundary :: "post list" where
  "momentum_boundary = keyword_posts 12 3 @ momentum_noise @ keyword_posts 9 1"

definition momentum_sparse :: "post list" where
  "momentum_sparse = keyword_posts 10 2 @ keyword_posts 12 6"

definition momentum_edge :: "post list" where
  "momentum_edge = keyword_posts 12 3 @ keyword_posts 9 1"

definition momentum_flat :: "post list" where
  "momentum_flat = keyword_posts 10 2 @ momentum_noise @ keyword_posts 11 2 @ keyword_posts 12 2"

definition momentum_growing :: "post list" where
  "momentum_growing = keyword_posts 12 6 @ keyword_posts 10 2 @ momentum_noise @ keyword_posts 11 4"

text \<open>
  A concrete library for the examples.  \<open>split_words\<close> cuts a Latin text at its spaces and
  keeps every space as a segment, as \<^verbatim>\<open>jieba.cut\<close> does; case is folded and digits are
  recognised on ASCII.  \<open>example_tfidf\<close> is \<^verbatim>\<open>TfidfVectorizer\<close> tabulated on the one corpus
  of the example below: with \<^verbatim>\<open>min_df=3\<close> and \<^verbatim>\<open>max_df=0.8\<close> the vocabulary of the four
  documents is "apple", "zebra" and the bigram "zebra apple" (each in 3 of the 4
  documents; "mango" is in 1), scikit-learn lists the features in ascending order of the
  term, and each of the first three rows has the three entries \<open>1 / sqrt 3\<close>.  The
  clustering functions are not used by the examples.
\<close>

fun split_words :: "pystr \<Rightarrow> pystr list" where
  "split_words [] = []"
| "split_words (c # cs) =
     (if c = 32 then [32] # split_words cs
      else (case split_words cs of
              [] \<Rightarrow> [[c]]
            | w # ws \<Rightarrow> if w = [32] then [c] # w # ws else (c # w) # ws))"

definition example_tfidf :: "int \<Rightarrow> int \<Rightarrow> pystr list \<Rightarrow> py_error + (pystr list \<times> real list list)" where
  "example_tfidf max_features min_df docs =
     (if min_df = 3 \<and>
         docs = [py ''zebra apple'', py ''zebra apple'', py ''zebra apple'', py ''mango'']
      then Inr ([py ''apple'', py ''zebra'', py ''zebra apple''],
                [[1 / sqrt 3, 1 / sqrt 3, 1 / sqrt 3],
                 [1 / sqrt 3, 1 / sqrt 3, 1 / sqrt 3],
                 [1 / sqrt 3, 1 / sqrt 3, 1 / sqrt 3],
                 [0, 0, 0]])
      else Inl ValueError)"

definition example_library :: library where
  "example_library =
     \<lparr>jieba_cut = split_words, str_lower = ascii_lower,
      str_isdigit = (\<lambda>w. w \<noteq> [] \<and> list_all (\<lambda>c. 48 \<le> c \<and> c \<le> 57) w),
      tfidf_fit_transform = example_tfidf,
      kmeans_fit_predict = (\<lambda>n_clusters matrix. Inl ValueError),
      argsort = (\<lambda>center. [])\<rparr>"

definition example_processor :: data_processor where
  "example_processor = default_processor {py ''the'', py ''like'', py ''post''} None"

text \<open>Four texts; "zebra" is seen before "apple", and both occur in the same three texts.\<close>

definition keyword_example :: "pystr list" where
  "keyword_example =
     [py ''Zebra apple'', py ''zebra apple'', py ''the zebra apple'', py ''mango 42'']"

text \<open>
  Five posts of which two reach the default threshold of 5 interactions, and a batch of
  five blank texts.
\<close>

definition clustering_example :: "post list" where
  "clustering_example =
     [raw_post (py ''c1'') (py ''ann'') (py ''zebra apple'') 0 5 0 0,
      raw_post (py ''c2'') (py ''bob'') (py ''zebra apple'') 0 4 0 0,
      raw_post (py ''c3'') (py ''cat'') (py ''zebra apple'') 0 2 2 2,
      raw_post (py ''c4'') (py ''dan'') (py ''mango'') 0 0 0 0,
      raw_post (py ''c5'') (py ''eve'') (py ''mango'') 0 1 1 1]"

section \<open>Facts\<close>

subsection \<open>Heat density\<close>

















subsection \<open>Freshness\<close>






subsection \<open>Engagement rate\<close>

lemma user_avg_all_zero:
  assumes "p \<in> set df" and "\<forall>q\<in>set df. username q = username p \<longrightarrow> total_interactions q = 0"
  shows "user_avg df (username p) = Fin 0"
proof -
  let ?g = "filter (\<lambda>q. username q = username p) df"
  have "p \<in> set ?g" using assms(1) by simp
  then obtain g gs where g: "?g = g # gs" by (cases ?g) auto
  have "\<forall>q\<in>set ?g. total_interactions q = 0" using assms(2) by simp
  then have "map total_interactions ?g = replicate (length ?g) 0"
    by (simp add: map_replicate_const [symmetric] cong: map_cong)
  then have "sum_list (map total_interactions ?g) = 0"
    by (simp add: sum_list_replicate)
  then show ?thesis
    unfolding user_avg_def g [symmetric] using g by (simp split: list.split)
qed

text \<open>
  Claim C10.  A post with zero interactions whose author has only zero-interaction posts
  in the batch gets the engagement rate \<open>log 2\<close>, which is not 0: the mean of the author's
  interactions is 0, the ratio \<open>0 / 0\<close> is NaN, NaN is replaced by 1.0, and
  \<open>log (1 + 1)\<close> is stored.
\<close>

theorem calculate_engagement_rate_zero_user:
  assumes i: "i < length df"
    and zero: "\<forall>q\<in>set df. username q = username (df ! i) \<longrightarrow> total_interactions q = 0"
  shows "total_interactions (df ! i) = 0 \<and>
    user_avg_interactions (calculate_engagement_rate df ! i) = Some (Fin 0) \<and>
    fdiv (Fin (real_of_int (total_interactions (df ! i)))) (fillna (user_avg df (username (df ! i))) 1) = NaN \<and>
    fillna (replace_inf NaN 1) 1 = Fin 1 \<and>
    engagement_rate (calculate_engagement_rate df ! i) = Some (Fin (ln 2)) \<and>
    (0::real) < ln 2"
proof -
  have mem: "df ! i \<in> set df" using i by simp
  then have t0: "total_interactions (df ! i) = 0" using zero by blast
  have avg: "user_avg df (username (df ! i)) = Fin 0"
    using user_avg_all_zero [OF mem zero] .
  have ne: "df \<noteq> []" using i by auto
  have ratio: "fdiv (Fin (real_of_int (total_interactions (df ! i))))
      (fillna (user_avg df (username (df ! i))) 1) = NaN"
    by (simp add: avg t0 fdiv_fin_def)
  have eng: "engagement_of df (df ! i) = Fin (ln 2)"
    unfolding engagement_of_def Let_def ratio by simp
  have "engagement_rate (calculate_engagement_rate df ! i) = Some (Fin (ln 2))"
    using i ne eng by (simp add: calculate_engagement_rate_def)
  moreover have "user_avg_interactions (calculate_engagement_rate df ! i) = Some (Fin 0)"
    using i ne avg by (simp add: calculate_engagement_rate_def)
  ultimately show ?thesis using t0 ratio by simp
qed

theorem calculate_engagement_rate_zero_user_witness:
  "total_interactions (engagement_example ! 0) = 0 \<and>
   engagement_rate (calculate_engagement_rate engagement_example ! 0) = Some (Fin (ln 2)) \<and>
   engagement_rate (calculate_engagement_rate engagement_example ! 2) = Some (Fin (ln 2))"
proof -
  have len: "length engagement_example = 3" by (simp add: engagement_example_def)
  have z0: "\<forall>q\<in>set engagement_example.
      username q = username (engagement_example ! 0) \<longrightarrow> total_interactions q = 0"
    by (simp add: engagement_example_def raw_post_def wrap_int64_def py_def)
  have z2: "\<forall>q\<in>set engagement_example.
      username q = username (engagement_example ! 2) \<longrightarrow> total_interactions q = 0"
    by (simp add: engagement_example_def raw_post_def wrap_int64_def py_def)
  have i0: "0 < length engagement_example" and i2: "2 < length engagement_example"
    using len by simp_all
  show ?thesis
    using calculate_engagement_rate_zero_user [OF i0 z0]
      calculate_engagement_rate_zero_user [OF i2 z2] by simp
qed

subsection \<open>Append-only enrichment\<close>

lemma those_length: "those xs = Some ys \<Longrightarrow> length ys = length xs"
  by (induction xs arbitrary: ys) (auto split: option.splits)

lemma map2_nth: "i < length xs \<Longrightarrow> length ys = length xs \<Longrightarrow> map2 f xs ys ! i = f (xs ! i) (ys ! i)"
  by simp

lemma heat_frame:
  "length (calculate_heat_density now df) = length df \<and>
   (\<forall>i<length df. raw_fields_kept (df ! i) (calculate_heat_density now df ! i) \<and>
      freshness_fields_kept (df ! i) (calculate_heat_density now df ! i) \<and>
      engagement_fields_kept (df ! i) (calculate_heat_density now df ! i) \<and>
      viral_fields_kept (df ! i) (calculate_heat_density now df ! i))"
  by (simp add: calculate_heat_density_def Let_def raw_fields_kept_def freshness_fields_kept_def
      engagement_fields_kept_def viral_fields_kept_def)

lemma freshness_frame:
  "length (calculate_freshness_score now df) = length df \<and>
   (\<forall>i<length df. raw_fields_kept (df ! i) (calculate_freshness_score now df ! i) \<and>
      heat_fields_kept (df ! i) (calculate_freshness_score now df ! i) \<and>
      engagement_fields_kept (df ! i) (calculate_freshness_score now df ! i) \<and>
      viral_fields_kept (df ! i) (calculate_freshness_score now df ! i))"
  by (simp add: calculate_freshness_score_def raw_fields_kept_def heat_fields_kept_def
      engagement_fields_kept_def viral_fields_kept_def)

lemma engagement_frame:
  "length (calculate_engagement_rate df) = length df \<and>
   (\<forall>i<length df. raw_fields_kept (df ! i) (calculate_engagement_rate df ! i) \<and>
      hours_kept (df ! i) (calculate_engagement_rate df ! i) \<and>
      heat_fields_kept (df ! i) (calculate_engagement_rate df ! i) \<and>
      freshness_fields_kept (df ! i) (calculate_engagement_rate df ! i) \<and>
      viral_fields_kept (df ! i) (calculate_engagement_rate df ! i))"
  by (simp add: calculate_engagement_rate_def raw_fields_kept_def heat_fields_kept_def
      hours_kept_def freshness_fields_kept_def viral_fields_kept_def)

lemma viral_frame:
  "length (calculate_viral_potential df) = length df \<and>
   (\<forall>i<length df. raw_fields_kept (df ! i) (calculate_viral_potential df ! i) \<and>
      hours_kept (df ! i) (calculate_viral_potential df ! i) \<and>
      heat_fields_kept (df ! i) (calculate_viral_potential df ! i) \<and>
      freshness_fields_kept (df ! i) (calculate_viral_potential df ! i) \<and>
      engagement_fields_kept (df ! i) (calculate_viral_potential df ! i))"
proof (cases "df = []")
  case True
  then show ?thesis
    by (simp add: calculate_viral_potential_def raw_fields_kept_def heat_fields_kept_def
          hours_kept_def freshness_fields_kept_def engagement_fields_kept_def)
next
  case False
  let ?df1 = "map set_repost_ratio df"
  show ?thesis
  proof (cases "those (map hours_since_post ?df1)")
    case None
    then have "calculate_viral_potential df = ?df1"
      using False by (simp add: calculate_viral_potential_def Let_def)
    then show ?thesis
      by (simp add: set_repost_ratio_def raw_fields_kept_def heat_fields_kept_def
          hours_kept_def freshness_fields_kept_def engagement_fields_kept_def)
  next
    case (Some hours)
    note hours = Some
    have lh: "length hours = length df"
      using those_length [OF hours] by simp
    let ?df2 = "map2 set_velocity_signals ?df1 hours"
    have l2: "length ?df2 = length df" using lh by simp
    show ?thesis
    proof (cases "those (map freshness_score ?df2)")
      case None
      then have "calculate_viral_potential df = ?df2"
        using False hours by (simp add: calculate_viral_potential_def Let_def)
      then show ?thesis using lh
        by (simp add: set_repost_ratio_def set_velocity_signals_def raw_fields_kept_def
            heat_fields_kept_def hours_kept_def freshness_fields_kept_def engagement_fields_kept_def)
    next
      case (Some fresh)
      have lf: "length fresh = length df"
        using those_length [OF Some] lh by simp
      let ?raw = "map2 viral_raw ?df2 fresh"
      have "calculate_viral_potential df = map2 (set_viral_potential (fmax_skipna ?raw)) ?df2 ?raw"
        using False hours Some by (simp add: calculate_viral_potential_def Let_def)
      then show ?thesis using lh lf
        by (simp add: set_repost_ratio_def set_velocity_signals_def set_viral_potential_def
            raw_fields_kept_def heat_fields_kept_def hours_kept_def freshness_fields_kept_def
            engagement_fields_kept_def)
    qed
  qed
qed


text \<open>
  Claim C9, as amended.  Each calculator stage keeps the rows of the batch and their order,
  keeps every raw column (\<^verbatim>\<open>post_id\<close>, \<^verbatim>\<open>username\<close>, \<^verbatim>\<open>content\<close>, \<^verbatim>\<open>timestamp\<close>,
  \<^verbatim>\<open>scraped_at\<close>, \<^verbatim>\<open>likes\<close>, \<^verbatim>\<open>replies\<close>, \<^verbatim>\<open>reposts\<close>, \<^verbatim>\<open>total_interactions\<close>), and keeps
  every derived column that it does not assign itself.  The one column that two stages
  assign is \<^verbatim>\<open>hours_since_post\<close>: \<^verbatim>\<open>calculate_heat_density\<close> writes it first, and
  \<^verbatim>\<open>calculate_freshness_score\<close> writes it again from its own reading of the clock.
\<close>

theorem calculator_stages_frame:
  "(length (calculate_heat_density now df) = length df \<and>
    (\<forall>i<length df. raw_fields_kept (df ! i) (calculate_heat_density now df ! i) \<and>
       freshness_fields_kept (df ! i) (calculate_heat_density now df ! i) \<and>
       engagement_fields_kept (df ! i) (calculate_heat_density now df ! i) \<and>
       viral_fields_kept (df ! i) (calculate_heat_density now df ! i))) \<and>
   (length (calculate_freshness_score now df) = length df \<and>
    (\<forall>i<length df. raw_fields_kept (df ! i) (calculate_freshness_score now df ! i) \<and>
       heat_fields_kept (df ! i) (calculate_freshness_score now df ! i) \<and>
       engagement_fields_kept (df ! i) (calculate_freshness_score now df ! i) \<and>
       viral_fields_kept (df ! i) (calculate_freshness_score now df ! i) \<and>
       hours_since_post (calculate_freshness_score now df ! i) =
         Some (hours_between now (timestamp (df ! i))))) \<and>
   (length (calculate_engagement_rate df) = length df \<and>
    (\<forall>i<length df. raw_fields_kept (df ! i) (calculate_engagement_rate df ! i) \<and>
       hours_kept (df ! i) (calculate_engagement_rate df ! i) \<and>
       heat_fields_kept (df ! i) (calculate_engagement_rate df ! i) \<and>
       freshness_fields_kept (df ! i) (calculate_engagement_rate df ! i) \<and>
       viral_fields_kept (df ! i) (calculate_engagement_rate df ! i))) \<and>
   (length (calculate_viral_potential df) = length df \<and>
    (\<forall>i<length df. raw_fields_kept (df ! i) (calculate_viral_potential df ! i) \<and>
       hours_kept (df ! i) (calculate_viral_potential df ! i) \<and>
       heat_fields_kept (df ! i) (calculate_viral_potential df ! i) \<and>
       freshness_fields_kept (df ! i) (calculate_viral_potential df ! i) \<and>
       engagement_fields_kept (df ! i) (calculate_viral_potential df ! i)))"
proof -
  have "\<forall>i<length df. hours_since_post (calculate_freshness_score now df ! i) =
         Some (hours_between now (timestamp (df ! i)))"
    by (simp add: calculate_freshness_score_def)
  then show ?thesis
    using heat_frame [of now df] freshness_frame [of now df] engagement_frame [of df]
      viral_frame [of df] by simp
qed

theorem calculator_stages_frame_witness:
  "raw_fields_kept (heat_example ! 0) (calculate_heat_density 0 heat_example ! 0) \<and>
   raw_fields_kept (heat_example ! 0) (calculate_freshness_score 0 heat_example ! 0) \<and>
   heat_fields_kept (heat_example ! 0) (calculate_freshness_score 0 heat_example ! 0) \<and>
   raw_fields_kept (heat_example ! 0) (calculate_engagement_rate heat_example ! 0) \<and>
   hours_kept (heat_example ! 0) (calculate_engagement_rate heat_example ! 0) \<and>
   raw_fields_kept (heat_example ! 0) (calculate_viral_potential heat_example ! 0) \<and>
   hours_kept (heat_example ! 0) (calculate_viral_potential heat_example ! 0)"
proof -
  have i: "0 < length heat_example" by (simp add: heat_example_def)
  show ?thesis
    using calculator_stages_frame [of 0 heat_example] i by blast
qed

theorem freshness_overwrites_hours_counterexample:
  "hours_since_post (calculate_heat_density 0 heat_example ! 0) = Some 0 \<and>
   hours_since_post
     (calculate_freshness_score 1000000000 (calculate_heat_density 0 heat_example) ! 0) =
     Some (1 / 3600) \<and>
   \<not> hours_kept (calculate_heat_density 0 heat_example ! 0)
     (calculate_freshness_score 1000000000 (calculate_heat_density 0 heat_example) ! 0)"
proof -
  have a: "hours_since_post (calculate_heat_density 0 heat_example ! 0) = Some 0"
    by (simp add: calculate_heat_density_def heat_example_def raw_post_def hours_between_def Let_def)
  have b: "hours_since_post
     (calculate_freshness_score 1000000000 (calculate_heat_density 0 heat_example) ! 0) =
     Some (1 / 3600)"
    by (simp add: calculate_freshness_score_def calculate_heat_density_def heat_example_def
        raw_post_def hours_between_def Let_def)
  show ?thesis using a b by (simp add: hours_kept_def)
qed

subsection \<open>Lists and options\<close>

lemma those_map_present:
  "\<forall>x\<in>set xs. f x \<noteq> None \<Longrightarrow>
   those (map f xs) = Some (map (\<lambda>x. case f x of Some y \<Rightarrow> y | None \<Rightarrow> d) xs)"
  by (induction xs) (auto split: option.splits)

lemma sorted_hd_Min: "sorted xs \<Longrightarrow> xs \<noteq> [] \<Longrightarrow> hd xs = Min (set xs)"
  by (cases xs) (auto intro!: Min_eqI [symmetric])

lemma sorted_last_Max: "sorted xs \<Longrightarrow> xs \<noteq> [] \<Longrightarrow> last xs = Max (set xs)"
proof (induction xs)
  case Nil
  then show ?case by simp
next
  case (Cons x xs)
  show ?case
  proof (cases "xs = []")
    case True
    then show ?thesis by simp
  next
    case False
    then have "last xs = Max (set xs)" using Cons by simp
    moreover have "x \<le> Max (set xs)"
      using Cons.prems False by (metis List.finite_set Max_ge last_in_set calculation sorted_simps(2))
    ultimately show ?thesis using False by (simp add: max_def)
  qed
qed

lemma sum_list_map_sort_key:
  fixes g :: "'a \<Rightarrow> 'b::comm_monoid_add"
  shows "sum_list (map g (sort_key k xs)) = sum_list (map g xs)"
proof -
  have "mset (map g (sort_key k xs)) = mset (map g xs)" by simp
  then show ?thesis by (metis sum_mset_sum_list)
qed

lemma those_Some_map: "those xs = Some ys \<Longrightarrow> xs = map Some ys"
  by (induction xs arbitrary: ys) (auto split: option.splits)

subsection \<open>Trending score\<close>

lemma wrap_int64_id: "int64 x \<Longrightarrow> wrap_int64 x = x"
  by (simp add: int64_def wrap_int64_def)

lemma trending_span:
  assumes "2 \<le> length c"
  shows "timestamp (last (sort_key timestamp c)) - timestamp (hd (sort_key timestamp c)) =
           time_span_ns c"
proof -
  let ?s = "sort_key timestamp c"
  have ne: "?s \<noteq> []" using assms by (metis length_sort list.size(3) not_numeral_le_zero)
  have srt: "sorted (map timestamp ?s)" by (rule sorted_sort_key)
  have "timestamp (hd ?s) = hd (map timestamp ?s)" using ne by (simp add: hd_map)
  also have "\<dots> = Min (set (map timestamp ?s))" using srt ne by (intro sorted_hd_Min) simp_all
  finally have a: "timestamp (hd ?s) = Min (set (map timestamp c))" by simp
  have "timestamp (last ?s) = last (map timestamp ?s)" using ne by (simp add: last_map)
  also have "\<dots> = Max (set (map timestamp ?s))" using srt ne by (intro sorted_last_Max) simp_all
  finally have b: "timestamp (last ?s) = Max (set (map timestamp c))" by simp
  show ?thesis unfolding time_span_ns_def a b ..
qed

lemma time_span_hours_ns: "time_span_hours c = real_of_int (time_span_ns c) / 1000000000 / 3600"
  by (simp add: time_span_hours_def time_span_ns_def)

lemma trending_score_value:
  assumes present: "\<forall>p\<in>set c. freshness_score p \<noteq> None"
    and len: "2 \<le> length c" and span: "0 < time_span_hours c"
    and fits: "int64 (time_span_ns c)"
  shows "calculate_trending_score c =
     min (real_of_int (wrap_int64 (sum_interactions c)) / time_span_hours c
            * mean_freshness c / 100) 1"
proof -
  let ?s = "sort_key timestamp c"
  have th: "those (map freshness_score ?s) =
      Some (map (\<lambda>p. case freshness_score p of Some f \<Rightarrow> f | None \<Rightarrow> 0) ?s)"
    using present by (intro those_map_present) simp
  have sumf: "sum_list (map (\<lambda>p. case freshness_score p of Some f \<Rightarrow> f | None \<Rightarrow> 0) ?s) =
      sum_list (map (\<lambda>p. case freshness_score p of Some f \<Rightarrow> f | None \<Rightarrow> 0) c)"
    by (rule sum_list_map_sort_key)
  have sumi: "sum_list (map total_interactions ?s) = sum_list (map total_interactions c)"
    by (rule sum_list_map_sort_key)
  have span': "0 < real_of_int (time_span_ns c) / 1000000000 / 3600"
    using span by (simp add: time_span_hours_ns)
  show ?thesis
    unfolding calculate_trending_score_def Let_def trending_span [OF len] th
    using len span' fits
    by (simp add: sumf sumi sum_interactions_def mean_freshness_def time_span_hours_ns)
qed

lemma trending_score_zero:
  assumes "length c < 2 \<or> time_span_hours c \<le> 0 \<or> \<not> int64 (time_span_ns c)"
  shows "calculate_trending_score c = 0"
proof (cases "length c < 2")
  case True
  then show ?thesis by (simp add: calculate_trending_score_def)
next
  case False
  then have len: "2 \<le> length c" by simp
  with assms have "real_of_int (time_span_ns c) / 1000000000 / 3600 \<le> 0 \<or> \<not> int64 (time_span_ns c)"
    by (simp add: time_span_hours_ns)
  then show ?thesis
    unfolding calculate_trending_score_def Let_def trending_span [OF len]
    using len by auto
qed

lemma trending_score_le_1: "calculate_trending_score c \<le> 1"
  unfolding calculate_trending_score_def Let_def
  by (simp split: option.split)

lemma trending_score_nonneg:
  assumes "\<forall>p\<in>set c. 0 \<le> total_interactions p \<and> (\<forall>f. freshness_score p = Some f \<longrightarrow> 0 \<le> f)"
    and fits: "int64 (sum_interactions c)"
  shows "0 \<le> calculate_trending_score c"
proof -
  let ?s = "sort_key timestamp c"
  have "sum_list (map total_interactions ?s) = sum_interactions c"
    unfolding sum_interactions_def by (rule sum_list_map_sort_key)
  moreover have "0 \<le> sum_interactions c"
    unfolding sum_interactions_def using assms by (intro sum_list_nonneg) auto
  ultimately have si: "0 \<le> wrap_int64 (sum_list (map total_interactions ?s))"
    using wrap_int64_id [OF fits] by simp
  have sf: "0 \<le> sum_list fresh" if "those (map freshness_score ?s) = Some fresh" for fresh
  proof (intro sum_list_nonneg)
    fix f assume "f \<in> set fresh"
    moreover have "map freshness_score ?s = map Some fresh"
      using those_Some_map [OF that] .
    ultimately have "Some f \<in> set (map freshness_score ?s)" by simp
    then obtain p where "p \<in> set c" "freshness_score p = Some f" by auto
    then show "0 \<le> f" using assms by blast
  qed
  show ?thesis
    unfolding calculate_trending_score_def Let_def
    using si sf by (auto split: option.split simp: not_le)
qed

text \<open>
  Claim C6.  \<^verbatim>\<open>_calculate_trending_score\<close> returns 0 for a cluster with fewer than 2
  posts or with a time span of at most 0 hours.  Otherwise, for a cluster that has its
  freshness scores and whose time span fits in 64 bits of nanoseconds, it returns the
  minimum of 1 and
  \<open>(sum of total_interactions / time span in hours) * mean freshness_score / 100\<close>,
  where the sum is the 64-bit sum, which wraps around: it is the sum of the
  specification when that sum fits in 64 bits.  The score is never above 1, and it is
  not below 0 when the interactions and the freshness scores of the cluster are
  non-negative and the sum of the interactions fits in 64 bits.
\<close>

theorem calculate_trending_score_spec:
  "(length c < 2 \<or> time_span_hours c \<le> 0 \<longrightarrow> calculate_trending_score c = 0) \<and>
   (2 \<le> length c \<and> 0 < time_span_hours c \<and> int64 (time_span_ns c) \<and>
    (\<forall>p\<in>set c. freshness_score p \<noteq> None) \<longrightarrow>
      calculate_trending_score c =
        min (real_of_int (wrap_int64 (sum_interactions c)) / time_span_hours c
               * mean_freshness c / 100) 1) \<and>
   (2 \<le> length c \<and> 0 < time_span_hours c \<and> int64 (time_span_ns c) \<and>
    (\<forall>p\<in>set c. freshness_score p \<noteq> None) \<and> int64 (sum_interactions c) \<longrightarrow>
      calculate_trending_score c =
        min (real_of_int (sum_interactions c) / time_span_hours c * mean_freshness c / 100) 1) \<and>
   calculate_trending_score c \<le> 1 \<and>
   ((\<forall>p\<in>set c. 0 \<le> total_interactions p \<and> (\<forall>f. freshness_score p = Some f \<longrightarrow> 0 \<le> f)) \<and>
    int64 (sum_interactions c) \<longrightarrow>
      0 \<le> calculate_trending_score c)"
proof -
  have v: "calculate_trending_score c =
        min (real_of_int (wrap_int64 (sum_interactions c)) / time_span_hours c
               * mean_freshness c / 100) 1"
    if "2 \<le> length c \<and> 0 < time_span_hours c \<and> int64 (time_span_ns c) \<and>
        (\<forall>p\<in>set c. freshness_score p \<noteq> None)"
    using that trending_score_value [of c] by blast
  have w: "calculate_trending_score c =
        min (real_of_int (sum_interactions c) / time_span_hours c * mean_freshness c / 100) 1"
    if "2 \<le> length c \<and> 0 < time_span_hours c \<and> int64 (time_span_ns c) \<and>
        (\<forall>p\<in>set c. freshness_score p \<noteq> None) \<and> int64 (sum_interactions c)"
    using that v wrap_int64_id [of "sum_interactions c"] by simp
  show ?thesis
    using trending_score_zero [of c] v w trending_score_le_1 [of c] trending_score_nonneg [of c]
    by blast
qed

theorem calculate_trending_score_spec_witness:
  "length trending_example = 3 \<and> time_span_hours trending_example = 5 \<and>
   sum_interactions trending_example = 450 \<and> mean_freshness trending_example = 53 / 60 \<and>
   calculate_trending_score trending_example = 159 / 200 \<and>
   calculate_trending_score [hd trending_example] = 0"
proof -
  have len: "length trending_example = 3" by (simp add: trending_example_def)
  have span: "time_span_hours trending_example = 5"
    by (simp add: trending_example_def time_span_hours_def raw_post_def)
  have ns: "int64 (time_span_ns trending_example)"
    by (simp add: trending_example_def time_span_ns_def raw_post_def int64_def)
  have si: "sum_interactions trending_example = 450"
    by (simp add: trending_example_def sum_interactions_def raw_post_def wrap_int64_def)
  have fits: "int64 (sum_interactions trending_example)"
    unfolding si by (simp add: int64_def)
  have mf: "mean_freshness trending_example = 53 / 60"
    by (simp add: trending_example_def mean_freshness_def raw_post_def)
  have pres: "\<forall>p\<in>set trending_example. freshness_score p \<noteq> None"
    by (simp add: trending_example_def del: not_None_eq)
  have "calculate_trending_score trending_example =
      min (real_of_int (sum_interactions trending_example) / time_span_hours trending_example
             * mean_freshness trending_example / 100) 1"
    using calculate_trending_score_spec [of trending_example] len span ns fits pres by simp
  then have v: "calculate_trending_score trending_example = 159 / 200"
    by (simp add: span si mf)
  have z: "calculate_trending_score [hd trending_example] = 0"
    using calculate_trending_score_spec [of "[hd trending_example]"] by simp
  show ?thesis using len span si mf v z by simp
qed

theorem calculate_trending_score_overflow_counterexample:
  "length trending_overflow_example = 2 \<and>
   map total_interactions trending_overflow_example =
     [4611686018427387904, 4611686018427387904] \<and>
   map freshness_score trending_overflow_example = [Some 1, Some 1] \<and>
   time_span_hours trending_overflow_example = 1 \<and>
   sum_interactions trending_overflow_example = 9223372036854775808 \<and>
   mean_freshness trending_overflow_example = 1 \<and>
   min (real_of_int (sum_interactions trending_overflow_example)
          / time_span_hours trending_overflow_example
          * mean_freshness trending_overflow_example / 100) 1 = 1 \<and>
   calculate_trending_score trending_overflow_example = - 9223372036854775808 / 100 \<and>
   calculate_trending_score trending_overflow_example < 0"
proof -
  have len: "length trending_overflow_example = 2" by (simp add: trending_overflow_example_def)
  have ti: "map total_interactions trending_overflow_example =
     [4611686018427387904, 4611686018427387904]"
    by (simp add: trending_overflow_example_def raw_post_def wrap_int64_def)
  have fr: "map freshness_score trending_overflow_example = [Some 1, Some 1]"
    by (simp add: trending_overflow_example_def raw_post_def)
  have span: "time_span_hours trending_overflow_example = 1"
    by (simp add: trending_overflow_example_def time_span_hours_def raw_post_def)
  have ns: "int64 (time_span_ns trending_overflow_example)"
    by (simp add: trending_overflow_example_def time_span_ns_def raw_post_def int64_def)
  have si: "sum_interactions trending_overflow_example = 9223372036854775808"
    unfolding sum_interactions_def ti by simp
  have mf: "mean_freshness trending_overflow_example = 1"
    by (simp add: trending_overflow_example_def mean_freshness_def raw_post_def)
  have pres: "\<forall>p\<in>set trending_overflow_example. freshness_score p \<noteq> None"
    by (simp add: trending_overflow_example_def del: not_None_eq)
  have wr: "wrap_int64 9223372036854775808 = - 9223372036854775808"
    by (simp add: wrap_int64_def)
  have v: "calculate_trending_score trending_overflow_example = - 9223372036854775808 / 100"
    using trending_score_value [OF pres] len span ns
    by (simp add: si mf wr)
  show ?thesis using len ti fr span si mf v by simp
qed

subsection \<open>Keyword momentum\<close>

lemma momentum_recent:
  "map (\<lambda>p. date_of (timestamp p))
     (filter (\<lambda>p. current_date - days \<le> date_of (timestamp p) \<and>
                  date_of (timestamp p) \<le> current_date \<and> contains (content p) keyword) df) =
   matching_dates contains keyword current_date df days"
  by (simp add: matching_dates_def in_lookback_window_def conj_assoc)

lemma momentum_unfold:
  "calculate_keyword_momentum contains keyword current_date df days =
     (let ds = matching_dates contains keyword current_date df days;
          values = map snd (daily_counts ds)
      in if \<not> timestamp_day current_date \<or> \<not> timestamp_day (current_date - days) then 0
         else if length ds < 2 then 0
         else if length values < 2 then 0
         else max 0 ((real (last values) - real (hd values)) / real (length values - 1)))"
  unfolding calculate_keyword_momentum_def Let_def momentum_recent [symmetric]
  by simp

lemma momentum_out_of_range:
  assumes "\<not> (timestamp_day current_date \<and> timestamp_day (current_date - days))"
  shows "calculate_keyword_momentum contains keyword current_date df days = 0"
  using assms unfolding momentum_unfold Let_def by auto

lemma length_daily_counts: "length (daily_counts ds) = distinct_days ds"
  by (simp add: daily_counts_def distinct_days_def length_remdups_card_conv)

lemma distinct_days_le: "distinct_days ds \<le> length ds"
  by (simp add: distinct_days_def card_length)


lemma daily_counts_values:
  assumes "ds \<noteq> []"
  shows "hd (map snd (daily_counts ds)) = count_list ds (Min (set ds))"
    and "last (map snd (daily_counts ds)) = count_list ds (Max (set ds))"
proof -
  let ?s = "sort (remdups ds)"
  have ne: "?s \<noteq> []" using assms by (metis length_0_conv length_sort remdups_eq_nil_iff)
  have srt: "sorted ?s" by simp
  have st: "set ?s = set ds" by simp
  have "hd ?s = Min (set ds)" using sorted_hd_Min [OF srt ne] st by simp
  then show "hd (map snd (daily_counts ds)) = count_list ds (Min (set ds))"
    using ne by (simp add: daily_counts_def hd_map comp_def)
  have "last ?s = Max (set ds)" using sorted_last_Max [OF srt ne] st by simp
  then show "last (map snd (daily_counts ds)) = count_list ds (Max (set ds))"
    using ne by (simp add: daily_counts_def last_map comp_def)
qed

lemma momentum_few_days:
  assumes "distinct_days (matching_dates contains keyword current_date df days) < 2"
  shows "calculate_keyword_momentum contains keyword current_date df days = 0"
  using assms unfolding momentum_unfold Let_def
  by (simp add: length_daily_counts)

lemma momentum_value:
  assumes "2 \<le> distinct_days (matching_dates contains keyword current_date df days)"
    and "timestamp_day current_date" and "timestamp_day (current_date - days)"
  shows "calculate_keyword_momentum contains keyword current_date df days =
     max 0 ((real (count_list (matching_dates contains keyword current_date df days)
                      (Max (set (matching_dates contains keyword current_date df days)))) -
             real (count_list (matching_dates contains keyword current_date df days)
                      (Min (set (matching_dates contains keyword current_date df days))))) /
            real (distinct_days (matching_dates contains keyword current_date df days) - 1))"
proof -
  let ?ds = "matching_dates contains keyword current_date df days"
  have l: "2 \<le> length ?ds" using assms distinct_days_le [of ?ds] by linarith
  then have ne: "?ds \<noteq> []" by auto
  show ?thesis
    unfolding momentum_unfold Let_def
    using assms l daily_counts_values [OF ne]
    by (simp add: length_daily_counts)
qed

lemma specified_momentum_nonneg:
  "0 \<le> specified_momentum contains keyword current_date df days"
  by (simp add: specified_momentum_def Let_def)

lemma momentum_nonneg: "0 \<le> calculate_keyword_momentum contains keyword current_date df days"
  unfolding momentum_unfold Let_def by simp

lemma momentum_three_days:
  assumes vals: "map snd (daily_counts (matching_dates contains keyword current_date df days)) = [a, b, c]"
    and ok: "timestamp_day current_date" "timestamp_day (current_date - days)"
  shows "calculate_keyword_momentum contains keyword current_date df days =
     max 0 ((real c - real a) / 2)"
proof -
  let ?ds = "matching_dates contains keyword current_date df days"
  have "length (daily_counts ?ds) = 3"
    using arg_cong [OF vals, of length] by simp
  then have "distinct_days ?ds = 3" by (simp add: length_daily_counts)
  then have "3 \<le> length ?ds" using distinct_days_le [of ?ds] by linarith
  then show ?thesis
    unfolding momentum_unfold Let_def vals using ok by simp
qed


lemma matching_dates_filter_window:
  "matching_dates contains keyword current_date (filter (in_lookback_window current_date days) df) days =
   matching_dates contains keyword current_date df days"
  by (simp add: matching_dates_def conj_commute conj_left_commute cong: filter_cong)

lemma momentum_depends_on_dates:
  "matching_dates contains keyword current_date df days =
   matching_dates contains keyword current_date df' days \<Longrightarrow>
   calculate_keyword_momentum contains keyword current_date df days =
   calculate_keyword_momentum contains keyword current_date df' days"
  by (simp add: momentum_unfold)

lemma momentum_window_only:
  "calculate_keyword_momentum contains keyword current_date
     (filter (in_lookback_window current_date days) df) days =
   calculate_keyword_momentum contains keyword current_date df days"
  by (rule momentum_depends_on_dates) (rule matching_dates_filter_window)

lemma matching_dates_append:
  "matching_dates c k e (xs @ ys) n = matching_dates c k e xs n @ matching_dates c k e ys n"
  by (simp add: matching_dates_def)

lemma matching_dates_outside:
  "\<forall>p\<in>set extra. \<not> in_lookback_window e n p \<Longrightarrow> matching_dates c k e extra n = []"
  by (simp add: matching_dates_def)

text \<open>
  Claim C2.  \<^verbatim>\<open>_calculate_keyword_momentum\<close> counts the keyword-matching posts of the
  dates from \<open>current_date - days\<close> to \<open>current_date\<close>.  It returns 0 when fewer than 2
  distinct days have such a post.  Otherwise, when \<open>current_date\<close> and
  \<open>current_date - days\<close> are dates of the nanosecond clock, it returns (count on the last
  day that has data - count on the first day that has data) / (number of days that have
  data - 1), or 0 when that is negative: the divisor is the number of days with a
  matching post, not the number of days of the window.  The result is never negative.
  Daily counts 2, 2, 2 on three consecutive days give 0, and daily counts 2, 4, 6 give
  (6 - 2) / 2 = 2.
\<close>

theorem keyword_momentum_formula:
  "(distinct_days (matching_dates contains keyword current_date df days) < 2 \<longrightarrow>
      calculate_keyword_momentum contains keyword current_date df days = 0) \<and>
   (2 \<le> distinct_days (matching_dates contains keyword current_date df days) \<and>
    timestamp_day current_date \<and> timestamp_day (current_date - days) \<longrightarrow>
      calculate_keyword_momentum contains keyword current_date df days =
        max 0 ((real (count_list (matching_dates contains keyword current_date df days)
                         (Max (set (matching_dates contains keyword current_date df days)))) -
                real (count_list (matching_dates contains keyword current_date df days)
                         (Min (set (matching_dates contains keyword current_date df days))))) /
               real (distinct_days (matching_dates contains keyword current_date df days) - 1))) \<and>
   0 \<le> calculate_keyword_momentum contains keyword current_date df days \<and>
   (daily_counts (matching_dates contains keyword current_date df days) =
        [(d, 2), (d + 1, 2), (d + 2, 2)] \<longrightarrow>
      calculate_keyword_momentum contains keyword current_date df days = 0) \<and>
   (daily_counts (matching_dates contains keyword current_date df days) =
        [(d, 2), (d + 1, 4), (d + 2, 6)] \<and>
    timestamp_day current_date \<and> timestamp_day (current_date - days) \<longrightarrow>
      calculate_keyword_momentum contains keyword current_date df days = 2)"
proof -
  let ?r = "calculate_keyword_momentum contains keyword current_date df days"
  let ?ds = "matching_dates contains keyword current_date df days"
  let ?ok = "timestamp_day current_date \<and> timestamp_day (current_date - days)"
  have zero: "?r = 0" if "distinct_days ?ds < 2 \<or> \<not> ?ok"
    using that momentum_few_days [of contains keyword current_date df days]
      momentum_out_of_range [of current_date days contains keyword df] by blast
  have flat: "?r = 0" if "daily_counts ?ds = [(d, 2), (d + 1, 2), (d + 2, 2)]"
  proof (cases ?ok)
    case True
    then show ?thesis
      using momentum_three_days [of contains keyword current_date df days 2 2 2] that by simp
  next
    case False
    then show ?thesis using zero by blast
  qed
  have grow: "?r = 2" if "daily_counts ?ds = [(d, 2), (d + 1, 4), (d + 2, 6)] \<and> ?ok"
    using momentum_three_days [of contains keyword current_date df days 2 4 6] that by simp
  have val: "?r = max 0 ((real (count_list ?ds (Max (set ?ds))) -
      real (count_list ?ds (Min (set ?ds)))) / real (distinct_days ?ds - 1))"
    if "2 \<le> distinct_days ?ds \<and> ?ok"
    using momentum_value [of contains keyword current_date df days] that by blast
  show ?thesis
    using zero val momentum_nonneg [of contains keyword current_date df days] flat grow
    by blast
qed

text \<open>
  Claim C3.  The momentum of a keyword at an end date is computed from the posts whose
  calendar date lies in the window from \<open>current_date - days\<close> to \<open>current_date\<close>, both
  included: \<open>days + 1\<close> calendar dates, one more than the \<open>days\<close> days of the
  specification (with the default \<open>days = 3\<close>, the end date and the three dates before
  it).  A post dated \<open>current_date - days\<close> is counted although it lies outside the window of
  \<open>days\<close> days that ends at \<open>current_date\<close>.  Removing the posts outside the window of
  \<open>days + 1\<close> dates, or adding posts outside it, does not change the result; two batches
  with the same posts in that window have the same momentum; and every date that is
  counted lies in it.
\<close>

theorem keyword_momentum_window:
  "calculate_keyword_momentum contains keyword current_date
     (filter (in_lookback_window current_date days) df) days =
     calculate_keyword_momentum contains keyword current_date df days \<and>
   (filter (in_lookback_window current_date days) df =
      filter (in_lookback_window current_date days) df' \<longrightarrow>
    calculate_keyword_momentum contains keyword current_date df days =
      calculate_keyword_momentum contains keyword current_date df' days) \<and>
   ((\<forall>p\<in>set extra. \<not> in_lookback_window current_date days p) \<longrightarrow>
    calculate_keyword_momentum contains keyword current_date (df @ extra) days =
      calculate_keyword_momentum contains keyword current_date df days \<and>
    calculate_keyword_momentum contains keyword current_date (extra @ df) days =
      calculate_keyword_momentum contains keyword current_date df days) \<and>
   (\<forall>x\<in>set (matching_dates contains keyword current_date df days).
      current_date - days \<le> x \<and> x \<le> current_date) \<and>
   (0 \<le> days \<and> date_of (timestamp q) = current_date - days \<longrightarrow>
      in_lookback_window current_date days q \<and> \<not> in_specified_window current_date days q) \<and>
   (in_specified_window current_date days q \<longrightarrow> in_lookback_window current_date days q) \<and>
   calculate_keyword_momentum_default contains keyword current_date df =
     calculate_keyword_momentum contains keyword current_date df 3"
proof -
  have a: "calculate_keyword_momentum contains keyword current_date df days =
      calculate_keyword_momentum contains keyword current_date df' days"
    if "filter (in_lookback_window current_date days) df =
      filter (in_lookback_window current_date days) df'"
    using momentum_window_only [of contains keyword current_date days df]
      momentum_window_only [of contains keyword current_date days df'] that by simp
  have b: "calculate_keyword_momentum contains keyword current_date (df @ extra) days =
      calculate_keyword_momentum contains keyword current_date df days \<and>
    calculate_keyword_momentum contains keyword current_date (extra @ df) days =
      calculate_keyword_momentum contains keyword current_date df days"
    if "\<forall>p\<in>set extra. \<not> in_lookback_window current_date days p"
    using matching_dates_outside [OF that, of contains keyword]
    by (auto intro!: momentum_depends_on_dates simp: matching_dates_append)
  have c: "\<forall>x\<in>set (matching_dates contains keyword current_date df days).
      current_date - days \<le> x \<and> x \<le> current_date"
    by (auto simp: matching_dates_def in_lookback_window_def)
  have d: "in_lookback_window current_date days q \<and> \<not> in_specified_window current_date days q"
    if "0 \<le> days \<and> date_of (timestamp q) = current_date - days"
    using that by (simp add: in_lookback_window_def in_specified_window_def)
  have e: "in_lookback_window current_date days q" if "in_specified_window current_date days q"
    using that by (simp add: in_lookback_window_def in_specified_window_def)
  show ?thesis
    using momentum_window_only [of contains keyword current_date days df] a b c d e
    by (simp add: calculate_keyword_momentum_default_def)
qed

lemma keyword_posts_dates:
  "matching_dates example_contains (py ''AI'') 12 (keyword_posts d n) 3 =
     (if 9 \<le> d \<and> d \<le> 12 then replicate n d else [])"
  by (simp add: matching_dates_def keyword_posts_def raw_post_def in_lookback_window_def
      date_of_def example_contains_def ascii_lower_def py_def map_replicate_const)

lemma momentum_noise_dates: "matching_dates example_contains (py ''AI'') 12 momentum_noise 3 = []"
  by (simp add: matching_dates_def momentum_noise_def raw_post_def in_lookback_window_def
      date_of_def example_contains_def ascii_lower_def py_def)

lemma replicate_small:
  "replicate 2 x = [x, x]" "replicate 3 x = [x, x, x]" "replicate 4 x = [x, x, x, x]"
  "replicate 6 x = [x, x, x, x, x, x]"
  by (simp_all add: numeral_eq_Suc)

theorem keyword_momentum_formula_witness:
  "daily_counts (matching_dates example_contains (py ''AI'') 12 momentum_flat 3) =
     [(10, 2), (11, 2), (12, 2)] \<and>
   calculate_keyword_momentum example_contains (py ''AI'') 12 momentum_flat 3 = 0 \<and>
   daily_counts (matching_dates example_contains (py ''AI'') 12 momentum_growing 3) =
     [(10, 2), (11, 4), (12, 6)] \<and>
   calculate_keyword_momentum example_contains (py ''AI'') 12 momentum_growing 3 = 2 \<and>
   distinct_days (matching_dates example_contains (py ''AI'') 12 (keyword_posts 12 6) 3) = 1 \<and>
   calculate_keyword_momentum example_contains (py ''AI'') 12 (keyword_posts 12 6) 3 = 0 \<and>
   matching_dates example_contains (py ''AI'') 12 momentum_sparse 3 = [10, 10, 12, 12, 12, 12, 12, 12] \<and>
   calculate_keyword_momentum example_contains (py ''AI'') 12 momentum_sparse 3 = 4"
proof -
  have flat: "matching_dates example_contains (py ''AI'') 12 momentum_flat 3 = [10, 10, 11, 11, 12, 12]"
    by (simp add: momentum_flat_def matching_dates_append keyword_posts_dates
        momentum_noise_dates replicate_small)
  have fc: "daily_counts (matching_dates example_contains (py ''AI'') 12 momentum_flat 3) =
     [(10, 2), (10 + 1, 2), (10 + 2, 2)]"
    unfolding flat by (simp add: daily_counts_def)
  have grow: "matching_dates example_contains (py ''AI'') 12 momentum_growing 3 =
      [12, 12, 12, 12, 12, 12, 10, 10, 11, 11, 11, 11]"
    by (simp add: momentum_growing_def matching_dates_append keyword_posts_dates
        momentum_noise_dates replicate_small)
  have gc: "daily_counts (matching_dates example_contains (py ''AI'') 12 momentum_growing 3) =
     [(10, 2), (10 + 1, 4), (10 + 2, 6)]"
    unfolding grow by (simp add: daily_counts_def)
  have one: "distinct_days (matching_dates example_contains (py ''AI'') 12 (keyword_posts 12 6) 3) = 1"
    by (simp add: keyword_posts_dates distinct_days_def)
  have ok: "timestamp_day 12 \<and> timestamp_day (12 - 3)" by (simp add: timestamp_day_def)
  have r1: "calculate_keyword_momentum example_contains (py ''AI'') 12 momentum_flat 3 = 0"
    using keyword_momentum_formula [of example_contains "py ''AI''" 12 momentum_flat 3 10] fc by blast
  have r2: "calculate_keyword_momentum example_contains (py ''AI'') 12 momentum_growing 3 = 2"
    using keyword_momentum_formula [of example_contains "py ''AI''" 12 momentum_growing 3 10] gc ok
    by blast
  have r3: "calculate_keyword_momentum example_contains (py ''AI'') 12 (keyword_posts 12 6) 3 = 0"
    using keyword_momentum_formula [of example_contains "py ''AI''" 12 "keyword_posts 12 6" 3 10] one
    by simp
  have sparse: "matching_dates example_contains (py ''AI'') 12 momentum_sparse 3 =
      [10, 10, 12, 12, 12, 12, 12, 12]"
    by (simp add: momentum_sparse_def matching_dates_append keyword_posts_dates replicate_small)
  have two: "distinct_days [10, 10, 12, 12, 12, 12, 12, 12 :: int] = 2"
    by (simp add: distinct_days_def)
  have r4: "calculate_keyword_momentum example_contains (py ''AI'') 12 momentum_sparse 3 = 4"
    using keyword_momentum_formula [of example_contains "py ''AI''" 12 momentum_sparse 3 10] ok
    unfolding sparse two by simp
  show ?thesis using fc gc one r1 r2 r3 sparse r4 by simp
qed

theorem keyword_momentum_window_witness:
  "filter (in_lookback_window 12 3) momentum_noise = [last momentum_noise] \<and>
   matching_dates example_contains (py ''AI'') 12 momentum_boundary 3 = [12, 12, 12, 9] \<and>
   calculate_keyword_momentum_default example_contains (py ''AI'') 12 momentum_boundary = 2 \<and>
   calculate_keyword_momentum example_contains (py ''AI'') 12
     (filter (in_lookback_window 12 3) momentum_boundary) 3 = 2"
proof -
  note main = keyword_momentum_window [of example_contains "py ''AI''" 12 3 momentum_boundary
      momentum_boundary "[]"]
  have w: "filter (in_lookback_window 12 3) momentum_noise = [last momentum_noise]"
    by (simp add: momentum_noise_def raw_post_def in_lookback_window_def date_of_def)
  have d: "matching_dates example_contains (py ''AI'') 12 momentum_boundary 3 = [12, 12, 12, 9]"
    by (simp add: momentum_boundary_def matching_dates_append keyword_posts_dates
        momentum_noise_dates replicate_small)
  have dd: "distinct_days [12, 12, 12, 9 :: int] = 2"
    by (simp add: distinct_days_def)
  have v: "calculate_keyword_momentum example_contains (py ''AI'') 12 momentum_boundary 3 = 2"
    using momentum_value [of example_contains "py ''AI''" 12 momentum_boundary 3]
    unfolding d dd by (simp add: timestamp_day_def)
  from main have "calculate_keyword_momentum_default example_contains (py ''AI'') 12 momentum_boundary =
     calculate_keyword_momentum example_contains (py ''AI'') 12 momentum_boundary 3"
    and "calculate_keyword_momentum example_contains (py ''AI'') 12
     (filter (in_lookback_window 12 3) momentum_boundary) 3 =
     calculate_keyword_momentum example_contains (py ''AI'') 12 momentum_boundary 3"
    by blast+
  then show ?thesis using w d v by simp
qed

lemma keyword_posts_specified:
  "specified_dates example_contains (py ''AI'') 12 (keyword_posts d n) 3 =
     (if 9 < d \<and> d \<le> 12 then replicate n d else [])"
  by (simp add: specified_dates_def keyword_posts_def raw_post_def in_specified_window_def
      date_of_def example_contains_def ascii_lower_def py_def map_replicate_const)

lemma specified_dates_append:
  "specified_dates c k e (xs @ ys) n = specified_dates c k e xs n @ specified_dates c k e ys n"
  by (simp add: specified_dates_def)

theorem keyword_momentum_divisor_counterexample:
  "daily_counts (matching_dates example_contains (py ''AI'') 12 momentum_sparse 3) =
     [(10, 2), (12, 6)] \<and>
   specified_dates example_contains (py ''AI'') 12 momentum_sparse 3 =
     matching_dates example_contains (py ''AI'') 12 momentum_sparse 3 \<and>
   specified_momentum example_contains (py ''AI'') 12 momentum_sparse 3 = 2 \<and>
   calculate_keyword_momentum example_contains (py ''AI'') 12 momentum_sparse 3 = 4"
proof -
  have sparse: "matching_dates example_contains (py ''AI'') 12 momentum_sparse 3 =
      [10, 10, 12, 12, 12, 12, 12, 12]"
    by (simp add: momentum_sparse_def matching_dates_append keyword_posts_dates replicate_small)
  have spec: "specified_dates example_contains (py ''AI'') 12 momentum_sparse 3 =
      [10, 10, 12, 12, 12, 12, 12, 12]"
    by (simp add: momentum_sparse_def specified_dates_append keyword_posts_specified
        replicate_small)
  have two: "distinct_days [10, 10, 12, 12, 12, 12, 12, 12 :: int] = 2"
    by (simp add: distinct_days_def)
  have dc: "daily_counts (matching_dates example_contains (py ''AI'') 12 momentum_sparse 3) =
     [(10, 2), (12, 6)]"
    unfolding sparse by (simp add: daily_counts_def)
  have sm: "specified_momentum example_contains (py ''AI'') 12 momentum_sparse 3 = 2"
    unfolding specified_momentum_def Let_def spec two by simp
  have cm: "calculate_keyword_momentum example_contains (py ''AI'') 12 momentum_sparse 3 = 4"
    using momentum_value [of example_contains "py ''AI''" 12 momentum_sparse 3]
    unfolding sparse two by (simp add: timestamp_day_def)
  show ?thesis using dc sparse spec sm cm by simp
qed

theorem keyword_momentum_window_counterexample:
  "filter (in_specified_window 12 3) momentum_edge = keyword_posts 12 3 \<and>
   filter (in_lookback_window 12 3) momentum_edge = momentum_edge \<and>
   specified_momentum example_contains (py ''AI'') 12 momentum_edge 3 = 0 \<and>
   calculate_keyword_momentum example_contains (py ''AI'') 12 (keyword_posts 12 3) 3 = 0 \<and>
   calculate_keyword_momentum example_contains (py ''AI'') 12 momentum_edge 3 = 2"
proof -
  have f1: "filter (in_specified_window 12 3) momentum_edge = keyword_posts 12 3"
    by (simp add: momentum_edge_def keyword_posts_def raw_post_def in_specified_window_def
        date_of_def)
  have f2: "filter (in_lookback_window 12 3) momentum_edge = momentum_edge"
    by (simp add: momentum_edge_def keyword_posts_def raw_post_def in_lookback_window_def
        date_of_def)
  have spec: "specified_dates example_contains (py ''AI'') 12 momentum_edge 3 = [12, 12, 12]"
    by (simp add: momentum_edge_def specified_dates_append keyword_posts_specified
        replicate_small)
  have one: "distinct_days [12, 12, 12 :: int] = 1" by (simp add: distinct_days_def)
  have sm: "specified_momentum example_contains (py ''AI'') 12 momentum_edge 3 = 0"
    unfolding specified_momentum_def Let_def spec one by simp
  have d0: "matching_dates example_contains (py ''AI'') 12 (keyword_posts 12 3) 3 = [12, 12, 12]"
    by (simp add: keyword_posts_dates replicate_small)
  have c0: "calculate_keyword_momentum example_contains (py ''AI'') 12 (keyword_posts 12 3) 3 = 0"
    using momentum_few_days [of example_contains "py ''AI''" 12 "keyword_posts 12 3" 3]
    unfolding d0 one by simp
  have d1: "matching_dates example_contains (py ''AI'') 12 momentum_edge 3 = [12, 12, 12, 9]"
    by (simp add: momentum_edge_def matching_dates_append keyword_posts_dates replicate_small)
  have dd: "distinct_days [12, 12, 12, 9 :: int] = 2" by (simp add: distinct_days_def)
  have c1: "calculate_keyword_momentum example_contains (py ''AI'') 12 momentum_edge 3 = 2"
    using momentum_value [of example_contains "py ''AI''" 12 momentum_edge 3]
    unfolding d1 dd by (simp add: timestamp_day_def)
  show ?thesis using f1 f2 sm c0 c1 by simp
qed

subsection \<open>Topic clustering guards\<close>

text \<open>
  Claim C5.  \<^verbatim>\<open>perform_topic_clustering\<close> returns the empty topic list when the batch has
  fewer than 5 posts, and when fewer than 3 posts have
  \<open>total_interactions \<ge> min_interactions_threshold\<close>; the threshold is 5 by default.  The
  function returns a list in every case: an exception of its body is turned into the
  empty list, whatever the libraries do.
\<close>

theorem perform_topic_clustering_insufficient_data:
  "(length df < 5 \<longrightarrow> perform_topic_clustering lib self df = []) \<and>
   (length (filter (\<lambda>p. min_interactions_threshold self \<le> total_interactions p) df) < 3 \<longrightarrow>
      perform_topic_clustering lib self df = []) \<and>
   (\<forall>e. perform_topic_clustering_body lib self df = Inl e \<longrightarrow>
      perform_topic_clustering lib self df = []) \<and>
   min_interactions_threshold (default_processor stopwords analyzer) = 5"
  by (simp add: perform_topic_clustering_def perform_topic_clustering_body_def Let_def
      default_processor_def)

theorem perform_topic_clustering_insufficient_data_witness:
  "length heat_example = 3 \<and>
   perform_topic_clustering example_library example_processor heat_example = [] \<and>
   length clustering_example = 5 \<and>
   min_interactions_threshold example_processor = 5 \<and>
   length (filter (\<lambda>p. min_interactions_threshold example_processor \<le> total_interactions p)
             clustering_example) = 2 \<and>
   perform_topic_clustering example_library example_processor clustering_example = []"
proof -
  have l3: "length heat_example = 3" by (simp add: heat_example_def)
  have l5: "length clustering_example = 5" by (simp add: clustering_example_def)
  have thr: "min_interactions_threshold example_processor = 5"
    by (simp add: example_processor_def default_processor_def)
  have f2: "length (filter (\<lambda>p. min_interactions_threshold example_processor \<le> total_interactions p)
             clustering_example) = 2"
    unfolding thr by (simp add: clustering_example_def raw_post_def wrap_int64_def)
  have a: "perform_topic_clustering example_library example_processor heat_example = []"
    using perform_topic_clustering_insufficient_data
      [where df = heat_example and lib = example_library and self = example_processor] l3
    by simp
  have b: "perform_topic_clustering example_library example_processor clustering_example = []"
    using perform_topic_clustering_insufficient_data
      [where df = clustering_example and lib = example_library and self = example_processor] f2
    by simp
  show ?thesis using l3 l5 thr f2 a b by simp
qed

subsection \<open>Keyword extraction\<close>

lemma sort_by_weight_desc_sorted:
  "sorted_wrt (\<lambda>a b. snd b \<le> snd a) (sort_by_weight_desc ks)"
proof -
  have "sorted (map (\<lambda>x. - snd x) (sort_key (\<lambda>x. - snd x) ks))"
    by (rule sorted_sort_key)
  then show ?thesis
    by (simp add: sort_by_weight_desc_def sorted_map)
qed

lemma sort_by_weight_desc_stable:
  "filter (\<lambda>x. snd x = w) (sort_by_weight_desc ks) = filter (\<lambda>x. snd x = w) ks"
proof -
  have "filter (\<lambda>x. - snd x = - w) (sort_key (\<lambda>x. - snd x) ks) = filter (\<lambda>x. - snd x = - w) ks"
    by (rule sort_key_stable)
  then show ?thesis by (simp add: sort_by_weight_desc_def)
qed

lemma sort_by_weight_desc_mset: "mset (sort_by_weight_desc ks) = mset ks"
  by (simp add: sort_by_weight_desc_def)

lemma processed_texts_empty:
  "\<forall>t\<in>set texts. strip t = [] \<or> filtered_words lib self t = [] \<Longrightarrow>
   processed_texts lib self texts = []"
  by (auto simp: processed_texts_def)

lemma extract_keywords_cases:
  "extract_keywords lib self texts mf =
     (if texts = [] \<or> processed_texts lib self texts = [] then []
      else case tfidf_fit_transform lib mf (keyword_min_freq self) (processed_texts lib self texts) of
             Inl e \<Rightarrow> []
           | Inr (names, matrix) \<Rightarrow> take 50 (sort_by_weight_desc (keyword_scores_of names matrix)))"
  by (simp add: extract_keywords_def extract_keywords_body_def split: sum.split prod.split)

lemma extract_keywords_sorted:
  "sorted_wrt (\<lambda>a b. snd b \<le> snd a) (extract_keywords lib self texts mf)"
  unfolding extract_keywords_cases
  by (auto split: sum.split prod.split intro: sorted_wrt_take sort_by_weight_desc_sorted)

lemma extract_keywords_length: "length (extract_keywords lib self texts mf) \<le> 50"
  unfolding extract_keywords_cases
  by (auto split: sum.split prod.split)


text \<open>
  Claim C8, as amended.  \<^verbatim>\<open>extract_keywords\<close> returns at most 50 term-weight pairs in
  descending order of the weight.  When the vectorizer gives its feature names and matrix,
  the result is the first 50 entries of the stable descending sort of the pairs (feature
  name, column mean): the terms of equal weight keep the order in which the vectorizer
  lists its features, which for scikit-learn is the ascending order of the terms, not the
  order in which they were first seen.  The result is the empty list for an empty list of
  texts, when every text is blank or has no surviving word, and when the vectorizer
  raises; the function returns a list in every case.
\<close>

theorem extract_keywords_sorted_capped:
  "sorted_wrt (\<lambda>a b. snd b \<le> snd a) (extract_keywords lib self texts max_features) \<and>
   length (extract_keywords lib self texts max_features) \<le> 50 \<and>
   (texts = [] \<longrightarrow> extract_keywords lib self texts max_features = []) \<and>
   ((\<forall>t\<in>set texts. strip t = [] \<or> filtered_words lib self t = []) \<longrightarrow>
      extract_keywords lib self texts max_features = []) \<and>
   (\<forall>e. tfidf_fit_transform lib max_features (keyword_min_freq self)
           (processed_texts lib self texts) = Inl e \<longrightarrow>
      extract_keywords lib self texts max_features = []) \<and>
   (\<forall>names matrix.
      texts \<noteq> [] \<and> processed_texts lib self texts \<noteq> [] \<and>
      tfidf_fit_transform lib max_features (keyword_min_freq self)
        (processed_texts lib self texts) = Inr (names, matrix) \<longrightarrow>
      extract_keywords lib self texts max_features =
        take 50 (sort_by_weight_desc (keyword_scores_of names matrix)) \<and>
      mset (sort_by_weight_desc (keyword_scores_of names matrix)) =
        mset (keyword_scores_of names matrix) \<and>
      (\<forall>w. filter (\<lambda>x. snd x = w) (sort_by_weight_desc (keyword_scores_of names matrix)) =
           filter (\<lambda>x. snd x = w) (keyword_scores_of names matrix)))"
proof -
  have a: "extract_keywords lib self texts max_features = []"
    if "\<forall>t\<in>set texts. strip t = [] \<or> filtered_words lib self t = []"
    using processed_texts_empty [OF that] by (simp add: extract_keywords_cases)
  have b: "extract_keywords lib self texts max_features = []"
    if "tfidf_fit_transform lib max_features (keyword_min_freq self)
           (processed_texts lib self texts) = Inl e" for e
    using that by (simp add: extract_keywords_cases)
  have c: "extract_keywords lib self texts max_features =
        take 50 (sort_by_weight_desc (keyword_scores_of names matrix))"
    if "texts \<noteq> []" "processed_texts lib self texts \<noteq> []"
      "tfidf_fit_transform lib max_features (keyword_min_freq self)
        (processed_texts lib self texts) = Inr (names, matrix)" for names matrix
    using that by (simp add: extract_keywords_cases)
  have d: "texts = [] \<longrightarrow> extract_keywords lib self texts max_features = []"
    by (simp add: extract_keywords_cases)
  show ?thesis
    using extract_keywords_sorted [of lib self texts max_features]
      extract_keywords_length [of lib self texts max_features] a b c d
      sort_by_weight_desc_mset sort_by_weight_desc_stable
    by blast
qed

lemma example_words:
  "filtered_words example_library example_processor (py ''Zebra apple'') = [py ''zebra'', py ''apple'']"
  "filtered_words example_library example_processor (py ''zebra apple'') = [py ''zebra'', py ''apple'']"
  "filtered_words example_library example_processor (py ''the zebra apple'') = [py ''zebra'', py ''apple'']"
  "filtered_words example_library example_processor (py ''mango 42'') = [py ''mango'']"
  by (simp_all add: filtered_words_def keep_word_def example_library_def example_processor_def
      default_processor_def py_def ascii_lower_def strip_def is_space_def re_match_token_def
      token_char_def)

lemma example_strip:
  "strip (py ''Zebra apple'') \<noteq> []" "strip (py ''zebra apple'') \<noteq> []"
  "strip (py ''the zebra apple'') \<noteq> []" "strip (py ''mango 42'') \<noteq> []"
  by (simp_all add: py_def strip_def is_space_def)

lemma example_processed:
  "processed_texts example_library example_processor keyword_example =
     [py ''zebra apple'', py ''zebra apple'', py ''zebra apple'', py ''mango'']"
  by (simp add: processed_texts_def keyword_example_def example_words example_strip)
     (simp add: py_def)

lemma example_stream:
  "word_stream example_library example_processor keyword_example =
     [py ''zebra'', py ''apple'', py ''zebra'', py ''apple'', py ''zebra'', py ''apple'', py ''mango'']"
  by (simp add: word_stream_def keyword_example_def example_words)

lemma example_scores:
  "keyword_scores_of [py ''apple'', py ''zebra'', py ''zebra apple'']
     [[1 / sqrt 3, 1 / sqrt 3, 1 / sqrt 3], [1 / sqrt 3, 1 / sqrt 3, 1 / sqrt 3],
      [1 / sqrt 3, 1 / sqrt 3, 1 / sqrt 3], [0, 0, 0]] =
   [(py ''apple'', 3 / sqrt 3 / 4), (py ''zebra'', 3 / sqrt 3 / 4), (py ''zebra apple'', 3 / sqrt 3 / 4)]"
  by (simp add: keyword_scores_of_def column_mean_def numeral_3_eq_3)

lemma example_out:
  "extract_keywords example_library example_processor keyword_example 100 =
   [(py ''apple'', 3 / sqrt 3 / 4), (py ''zebra'', 3 / sqrt 3 / 4), (py ''zebra apple'', 3 / sqrt 3 / 4)]"
proof -
  have kmf: "keyword_min_freq example_processor = 3"
    by (simp add: example_processor_def default_processor_def)
  have tf: "tfidf_fit_transform example_library = example_tfidf"
    by (simp add: example_library_def)
  have ne: "keyword_example \<noteq> []" by (simp add: keyword_example_def)
  show ?thesis
    unfolding extract_keywords_cases example_processed kmf tf
    using ne
    by (simp add: example_tfidf_def example_scores sort_by_weight_desc_def)
qed


theorem extract_keywords_sorted_capped_witness:
  "extract_keywords example_library example_processor [] 100 = [] \<and>
   extract_keywords example_library example_processor [py '' '', py ''the 42''] 100 = [] \<and>
   keyword_example \<noteq> [] \<and>
   processed_texts example_library example_processor keyword_example \<noteq> [] \<and>
   extract_keywords example_library example_processor keyword_example 100 =
     take 50 (sort_by_weight_desc
       [(py ''apple'', 3 / sqrt 3 / 4), (py ''zebra'', 3 / sqrt 3 / 4),
        (py ''zebra apple'', 3 / sqrt 3 / 4)]) \<and>
   length (extract_keywords example_library example_processor keyword_example 100) = 3"
proof -
  note main = extract_keywords_sorted_capped
  have e1: "extract_keywords example_library example_processor [] 100 = []"
    using main [where texts = "[]" and lib = example_library and self = example_processor
        and max_features = 100] by blast
  have blank: "\<forall>t\<in>set [py '' '', py ''the 42''].
      strip t = [] \<or> filtered_words example_library example_processor t = []"
    by (simp add: filtered_words_def keep_word_def example_library_def example_processor_def
      default_processor_def py_def ascii_lower_def strip_def is_space_def re_match_token_def
      token_char_def)
  have e2: "extract_keywords example_library example_processor [py '' '', py ''the 42''] 100 = []"
    using main [where texts = "[py '' '', py ''the 42'']" and lib = example_library
        and self = example_processor and max_features = 100] blank by blast
  have ne: "keyword_example \<noteq> []" by (simp add: keyword_example_def)
  have pne: "processed_texts example_library example_processor keyword_example \<noteq> []"
    by (simp add: example_processed)
  have tf: "tfidf_fit_transform example_library 100 (keyword_min_freq example_processor)
      (processed_texts example_library example_processor keyword_example) =
      Inr ([py ''apple'', py ''zebra'', py ''zebra apple''],
                [[1 / sqrt 3, 1 / sqrt 3, 1 / sqrt 3],
                 [1 / sqrt 3, 1 / sqrt 3, 1 / sqrt 3],
                 [1 / sqrt 3, 1 / sqrt 3, 1 / sqrt 3],
                 [0, 0, 0]])"
  proof -
    have kmf: "keyword_min_freq example_processor = 3"
      by (simp add: example_processor_def default_processor_def)
    have lib: "tfidf_fit_transform example_library = example_tfidf"
      by (simp add: example_library_def)
    show ?thesis
      unfolding example_processed kmf lib by (simp add: example_tfidf_def)
  qed
  have e3: "extract_keywords example_library example_processor keyword_example 100 =
     take 50 (sort_by_weight_desc (keyword_scores_of [py ''apple'', py ''zebra'', py ''zebra apple'']
                [[1 / sqrt 3, 1 / sqrt 3, 1 / sqrt 3],
                 [1 / sqrt 3, 1 / sqrt 3, 1 / sqrt 3],
                 [1 / sqrt 3, 1 / sqrt 3, 1 / sqrt 3],
                 [0, 0, 0]]))"
    using main [where texts = keyword_example and lib = example_library
        and self = example_processor and max_features = 100] ne pne tf by blast
  have l: "length (extract_keywords example_library example_processor keyword_example 100) = 3"
    unfolding e3 example_scores by (simp add: sort_by_weight_desc_def)
  show ?thesis using e1 e2 ne pne e3 l unfolding example_scores by simp
qed

theorem extract_keywords_tie_order_counterexample:
  "map fst (extract_keywords example_library example_processor keyword_example 100) =
     [py ''apple'', py ''zebra'', py ''zebra apple''] \<and>
   snd (extract_keywords example_library example_processor keyword_example 100 ! 0) =
     snd (extract_keywords example_library example_processor keyword_example 100 ! 1) \<and>
   first_seen (word_stream example_library example_processor keyword_example) (py ''zebra'') = 0 \<and>
   first_seen (word_stream example_library example_processor keyword_example) (py ''apple'') = 1 \<and>
   \<not> ties_in_first_seen_order (word_stream example_library example_processor keyword_example)
       (extract_keywords example_library example_processor keyword_example 100)"
proof -
  let ?out = "extract_keywords example_library example_processor keyword_example 100"
  let ?stream = "word_stream example_library example_processor keyword_example"
  have names: "map fst ?out = [py ''apple'', py ''zebra'', py ''zebra apple'']"
    by (simp add: example_out)
  have tie: "snd (?out ! 0) = snd (?out ! 1)"
    by (simp add: example_out)
  have z: "first_seen ?stream (py ''zebra'') = 0"
    by (simp add: example_stream)
  have a: "first_seen ?stream (py ''apple'') = 1"
    by (simp add: example_stream py_def)
  have f0: "fst (?out ! 0) = py ''apple''" and f1: "fst (?out ! 1) = py ''zebra''"
    by (simp_all add: example_out)
  have len: "length ?out = 3" by (simp add: example_out)
  have "\<not> ties_in_first_seen_order ?stream ?out"
  proof
    assume "ties_in_first_seen_order ?stream ?out"
    then have "first_seen ?stream (fst (?out ! 0)) \<le> first_seen ?stream (fst (?out ! 1))"
      unfolding ties_in_first_seen_order_def using len tie
      by (metis One_nat_def Suc_1 less_Suc_eq numeral_3_eq_3 zero_less_one)
    then show False unfolding f0 f1 z a by simp
  qed
  then show ?thesis using names tie z a by simp
qed

end
